theory Spec2Isabelle
  imports Main
begin

section \<open>Strings, paths and decimal rendering\<close>

text \<open>
  The few string functions of the platform that the sources use, on ASCII strings:
  \<^verbatim>\<open>String.prototype.toLowerCase\<close>, \<^verbatim>\<open>Number.prototype.toString\<close> on a non-negative integer,
  and \<^verbatim>\<open>path.basename\<close> and \<^verbatim>\<open>path.extname\<close> of Node's POSIX \<^verbatim>\<open>path\<close> module: the base name is
  the last component of the path, trailing separators ignored; the extension runs from the
  last dot of the base name to its end, and is empty when the base name has no dot, when
  that dot is its first character, or when the base name is \<^verbatim>\<open>..\<close>.
\<close>

definition toLowerCase_char :: "char \<Rightarrow> char" where
  "toLowerCase_char c =
     (case map_of (zip ''ABCDEFGHIJKLMNOPQRSTUVWXYZ'' ''abcdefghijklmnopqrstuvwxyz'') c of
        None \<Rightarrow> c
      | Some l \<Rightarrow> l)"

definition toLowerCase :: "string \<Rightarrow> string" where
  "toLowerCase s = map toLowerCase_char s"

definition digit_char :: "int \<Rightarrow> char" where
  "digit_char k = ''0123456789'' ! nat (k mod 10)"

function decimal :: "int \<Rightarrow> string" where
  "decimal n = (if n < 10 then [digit_char n] else decimal (n div 10) @ [digit_char n])"
  by pat_completeness auto
termination
  by (relation "measure nat") auto

declare decimal.simps [simp del]

definition basename :: "string \<Rightarrow> string" where
  "basename p = rev (takeWhile (\<lambda>c. c \<noteq> CHR ''/'') (dropWhile (\<lambda>c. c = CHR ''/'') (rev p)))"

definition extname :: "string \<Rightarrow> string" where
  "extname p =
     (let base = basename p;
          after = takeWhile (\<lambda>c. c \<noteq> CHR ''.'') (rev base)
      in if CHR ''.'' \<notin> set base \<or> base = ''..'' \<or> length after + 1 = length base
         then ''''
         else CHR ''.'' # rev after)"

section \<open>Files, metadata documents and errors\<close>

text \<open>
  The file system as the validators see it: \<^verbatim>\<open>fs.existsSync\<close> and \<^verbatim>\<open>fs.statSync(path).size\<close>.
  A file also carries what was written to it, for the pipelines further down: opaque bytes,
  or the JSON text of a token metadata document.
\<close>

record metadata_file =
  uri :: string
  declaredType :: string

record upload_details =
  ud_wallet_address :: string
  ud_session_id :: string
  ud_logo_transaction_id :: string
  ud_created_at :: int
  ud_file_size :: int
  ud_content_type :: string

text \<open>
  The token metadata document. The fields every pipeline writes, and the two that only some
  write: \<^verbatim>\<open>properties.file_size\<close> (with \<^verbatim>\<open>size_compliant: true\<close>) and \<^verbatim>\<open>upload_details\<close>.
  Attributes and creators are opaque JSON values.
\<close>

record token_metadata =
  mdName :: string
  mdSymbol :: string
  mdDescription :: string
  image :: string
  external_url :: string
  attributes :: "string list"
  files :: "metadata_file list"
  mdCategory :: string
  creators :: "string list"
  mdFileSize :: "int option"
  mdUploadDetails :: "upload_details option"

datatype file_body = Binary | MetadataJson token_metadata

record file_stat =
  fsize :: int
  body :: file_body

type_synonym filesystem = "string \<rightharpoonup> file_stat"

text \<open>
  An \<^verbatim>\<open>Error\<close> thrown by the services, by the kind of its message. \<^verbatim>\<open>FileTooLarge size limit\<close>
  stands for the messages that print the size and the limit in megabytes.
\<close>

datatype upload_error =
    FileNotFound string
  | UnsupportedFileType string
  | FileTooLarge int int
  | EmptyFile
  | UploadTimeout
  | RemoteUploadError string
  | ConnectionError string
  | RateLimitExceeded int
  | LedgerError string
  | ReferenceError string
  | TypeError string


section \<open>JSON ledger backend (src/src/user-json-manager.js)\<close>

text \<open>
  \<^verbatim>\<open>JSONUserManager\<close> keeps three stores in memory, \<^verbatim>\<open>users\<close>, \<^verbatim>\<open>uploads\<close> and \<^verbatim>\<open>rateLimits\<close>,
  each a plain JavaScript object (\<^verbatim>\<open>{}\<close>) keyed by the user id. What the manager stored
  under a key is an own property of the store; \<^verbatim>\<open>store[key]\<close> reads the own property if
  there is one and otherwise looks the key up on \<^verbatim>\<open>Object.prototype\<close>, so that a key such as
  \<^verbatim>\<open>constructor\<close> reads as a function although nothing was stored under it.

  A stored \<^verbatim>\<open>new Date().toISOString()\<close> is modelled by the instant it renders (milliseconds
  since the epoch), which \<^verbatim>\<open>new Date(iso)\<close> reads back; the clock reading and the value of
  \<^verbatim>\<open>crypto.randomUUID()\<close> are inputs of each operation, and the readings of the clock within
  one operation are one instant.
\<close>

subsection \<open>Numbers\<close>

text \<open>
  JavaScript numbers are IEEE 754 doubles. The model carries the integers among them
  (\<^verbatim>\<open>Date.now()\<close>, \<^verbatim>\<open>stats.size\<close>, counts) as \<open>int\<close>. The result of an arithmetic operation is
  the exact result rounded to a significand of 53 bits, ties to even: every integer of
  magnitude at most \<open>2^53 = 9007199254740992\<close> is kept, beyond it only multiples of a power
  of two are. Results of magnitude \<open>2^1024\<close>, which JavaScript turns into \<^verbatim>\<open>Infinity\<close>, are
  rounded like the others.
\<close>

function significand_shift :: "int \<Rightarrow> nat" where
  "significand_shift a =
     (if a < 9007199254740992 then 0 else Suc (significand_shift (a div 2)))"
  by pat_completeness auto
termination by (relation "measure nat") auto

declare significand_shift.simps [simp del]

definition round_to_double :: "int \<Rightarrow> int" where
  "round_to_double n =
     (let a = \<bar>n\<bar>;
          e = significand_shift a;
          q = a div 2 ^ e;
          r = a mod 2 ^ e
      in if e = 0 then n
         else sgn n * 2 ^ e * (if 2 * r > 2 ^ e \<or> (2 * r = 2 ^ e \<and> odd q) then q + 1 else q))"

definition js_plus :: "int \<Rightarrow> int \<Rightarrow> int" where
  "js_plus x y = round_to_double (x + y)"

definition js_minus :: "int \<Rightarrow> int \<Rightarrow> int" where
  "js_minus x y = round_to_double (x - y)"

definition js_times :: "int \<Rightarrow> int \<Rightarrow> int" where
  "js_times x y = round_to_double (x * y)"

subsection \<open>Property lookup\<close>

text \<open>
  The properties of \<^verbatim>\<open>Object.prototype\<close>: eleven functions and the accessor \<^verbatim>\<open>__proto__\<close>,
  which on a plain object reads as \<^verbatim>\<open>Object.prototype\<close> itself. All of them are truthy and
  none has a \<^verbatim>\<open>push\<close>, \<^verbatim>\<open>filter\<close> or \<^verbatim>\<open>sort\<close> method. The manager can add one more:
  \<^verbatim>\<open>createOrGetUser('__proto__')\<close> takes the branch of an existing user and assigns
  \<^verbatim>\<open>Object.prototype.lastActivity\<close>, after which the key \<^verbatim>\<open>lastActivity\<close> reads as that
  string in every store that has no own property of the name.
\<close>

datatype js_inherited = PrototypeFunction | PrototypeObject | PrototypeString int

definition Object_prototype_functions :: "string list" where
  "Object_prototype_functions =
     [''constructor'', ''__defineGetter__'', ''__defineSetter__'', ''hasOwnProperty'',
      ''__lookupGetter__'', ''__lookupSetter__'', ''isPrototypeOf'', ''propertyIsEnumerable'',
      ''toString'', ''valueOf'', ''toLocaleString'']"

definition Object_prototype :: "int option \<Rightarrow> string \<Rightarrow> js_inherited option" where
  "Object_prototype assignedLastActivity name =
     (if name = ''__proto__'' then Some PrototypeObject
      else if name \<in> set Object_prototype_functions then Some PrototypeFunction
      else if name = ''lastActivity'' then map_option PrototypeString assignedLastActivity
      else None)"

datatype 'a property = Own 'a | Inherited js_inherited | Undefined

definition property_of :: "int option \<Rightarrow> (string \<rightharpoonup> 'a) \<Rightarrow> string \<Rightarrow> 'a property" where
  "property_of assignedLastActivity store name =
     (case store name of
        Some v \<Rightarrow> Own v
      | None \<Rightarrow>
          (case Object_prototype assignedLastActivity name of
             Some v \<Rightarrow> Inherited v
           | None \<Rightarrow> Undefined))"

subsection \<open>The stores and the operations\<close>

record user_record =
  userId :: string
  email :: "string option"
  createdAt :: int
  lastActivity :: int
  totalUploads :: int
  totalSizeBytes :: int
  status :: string

record upload_data =
  transactionId :: string
  fileName :: string
  fileSize :: int
  contentType :: string
  publicURL :: string
  uploadTime :: int

record upload_record = upload_data +
  recId :: string
  recCreatedAt :: int

record rate_entry =
  timestamp :: int
  ipAddress :: string

record rate_result =
  allowed :: bool
  remaining :: int
  resetTime :: int

text \<open>
  The own properties of the three stores, and \<^verbatim>\<open>Object.prototype.lastActivity\<close> if it has
  been assigned.
\<close>

record json_state =
  users :: "string \<rightharpoonup> user_record"
  uploads :: "string \<rightharpoonup> upload_record list"
  rateLimits :: "string \<rightharpoonup> rate_entry list"
  prototypeLastActivity :: "int option"

definition json_empty :: json_state where
  "json_empty =
     \<lparr>users = Map.empty, uploads = Map.empty, rateLimits = Map.empty,
      prototypeLastActivity = None\<rparr>"

text \<open>The upload records and the rate entries stored for an identity.\<close>

definition uploads_of :: "json_state \<Rightarrow> string \<Rightarrow> upload_record list" where
  "uploads_of s uid = (case uploads s uid of None \<Rightarrow> [] | Some l \<Rightarrow> l)"

definition rate_entries_of :: "json_state \<Rightarrow> string \<Rightarrow> rate_entry list" where
  "rate_entries_of s uid = (case rateLimits s uid of None \<Rightarrow> [] | Some l \<Rightarrow> l)"

text \<open>
  \<^verbatim>\<open>createOrGetUser\<close> tests \<^verbatim>\<open>!this.users[userId]\<close>. An inherited value is truthy, so the call
  takes the branch of an existing user and assigns \<^verbatim>\<open>lastActivity\<close> on the inherited value:
  on a function this changes no store; on \<^verbatim>\<open>Object.prototype\<close> it adds the inherited property;
  on a string the assignment throws, the module being in strict mode. The call returns
  \<^verbatim>\<open>this.users[userId]\<close>.
\<close>

definition JSONUserManager_createOrGetUser ::
  "string \<Rightarrow> string option \<Rightarrow> int \<Rightarrow> json_state \<Rightarrow>
     (upload_error + user_record property) \<times> json_state" where
  "JSONUserManager_createOrGetUser uid em now s =
     (case property_of (prototypeLastActivity s) (users s) uid of
        Undefined \<Rightarrow>
          (let u = \<lparr>userId = uid, email = em, createdAt = now, lastActivity = now,
                    totalUploads = 0, totalSizeBytes = 0, status = ''active''\<rparr>
           in (Inr (Own u), s\<lparr>users := (users s)(uid \<mapsto> u)\<rparr>))
      | Own u \<Rightarrow>
          (let u' = u\<lparr>lastActivity := now\<rparr>
           in (Inr (Own u'), s\<lparr>users := (users s)(uid \<mapsto> u')\<rparr>))
      | Inherited PrototypeFunction \<Rightarrow> (Inr (Inherited PrototypeFunction), s)
      | Inherited PrototypeObject \<Rightarrow>
          (Inr (Inherited PrototypeObject), s\<lparr>prototypeLastActivity := Some now\<rparr>)
      | Inherited (PrototypeString t) \<Rightarrow>
          (Inl (TypeError ''Cannot create property lastActivity on string''), s))"

definition mk_upload_record :: "upload_data \<Rightarrow> string \<Rightarrow> int \<Rightarrow> upload_record" where
  "mk_upload_record d uuid now =
     \<lparr>transactionId = transactionId d, fileName = fileName d, fileSize = fileSize d,
      contentType = contentType d, publicURL = publicURL d, uploadTime = uploadTime d,
      recId = uuid, recCreatedAt = now\<rparr>"

text \<open>
  \<^verbatim>\<open>recordUpload\<close> initialises \<^verbatim>\<open>this.uploads[userId]\<close> only when it reads as falsy, and then
  calls \<^verbatim>\<open>push\<close> on what it reads: on an inherited value that is a call of \<^verbatim>\<open>undefined\<close>, a
  \<^verbatim>\<open>TypeError\<close>, and nothing is stored. After the push, \<^verbatim>\<open>if (this.users[userId])\<close> guards the
  statistics: on an inherited function the three assignments change no store; on
  \<^verbatim>\<open>Object.prototype\<close> they assign \<^verbatim>\<open>NaN\<close> to \<^verbatim>\<open>totalUploads\<close> and \<^verbatim>\<open>totalSizeBytes\<close> (falsy, so
  these keys still read as missing) and the string to \<^verbatim>\<open>lastActivity\<close>; on a string the first
  assignment throws, after the record has been pushed.
\<close>

definition JSONUserManager_recordUpload ::
  "string \<Rightarrow> upload_data \<Rightarrow> string \<Rightarrow> int \<Rightarrow> json_state \<Rightarrow>
     (upload_error + upload_record) \<times> json_state" where
  "JSONUserManager_recordUpload uid d uuid now s =
     (let uploadRecord = mk_upload_record d uuid now
      in case property_of (prototypeLastActivity s) (uploads s) uid of
           Inherited v \<Rightarrow>
             (Inl (TypeError ''this.uploads[userId].push is not a function''), s)
         | stored \<Rightarrow>
             (let s1 = s\<lparr>uploads := (uploads s)(uid \<mapsto>
                            (case stored of Own l \<Rightarrow> l | _ \<Rightarrow> []) @ [uploadRecord])\<rparr>
              in case property_of (prototypeLastActivity s1) (users s1) uid of
                   Undefined \<Rightarrow> (Inr uploadRecord, s1)
                 | Own u \<Rightarrow>
                     (Inr uploadRecord,
                      s1\<lparr>users := (users s1)(uid \<mapsto>
                            u\<lparr>totalUploads := js_plus (totalUploads u) 1,
                              totalSizeBytes := js_plus (totalSizeBytes u) (fileSize d),
                              lastActivity := now\<rparr>)\<rparr>)
                 | Inherited PrototypeFunction \<Rightarrow> (Inr uploadRecord, s1)
                 | Inherited PrototypeObject \<Rightarrow>
                     (Inr uploadRecord, s1\<lparr>prototypeLastActivity := Some now\<rparr>)
                 | Inherited (PrototypeString t) \<Rightarrow>
                     (Inl (TypeError ''Cannot create property totalUploads on string''), s1)))"

definition JSONUserManager_checkRateLimit ::
  "string \<Rightarrow> string \<Rightarrow> int \<Rightarrow> int \<Rightarrow> int \<Rightarrow> json_state \<Rightarrow>
     (upload_error + rate_result) \<times> json_state" where
  "JSONUserManager_checkRateLimit uid ip timeWindowMs maxRequests now s =
     (let cutoffTime = js_minus now timeWindowMs
      in case property_of (prototypeLastActivity s) (rateLimits s) uid of
           Inherited v \<Rightarrow>
             (Inl (TypeError ''this.rateLimits[userId].filter is not a function''), s)
         | stored \<Rightarrow>
             (let kept = filter (\<lambda>request. timestamp request > cutoffTime)
                           (case stored of Own l \<Rightarrow> l | _ \<Rightarrow> []);
                  s1 = s\<lparr>rateLimits := (rateLimits s)(uid \<mapsto> kept)\<rparr>;
                  requestCount = int (length kept)
              in if requestCount \<ge> maxRequests
                 then (Inr \<lparr>allowed = False, remaining = 0,
                            resetTime = js_plus now timeWindowMs\<rparr>, s1)
                 else (Inr \<lparr>allowed = True,
                            remaining = js_minus (js_minus maxRequests requestCount) 1,
                            resetTime = js_plus now timeWindowMs\<rparr>,
                       s1\<lparr>rateLimits := (rateLimits s1)(uid \<mapsto>
                             kept @ [\<lparr>timestamp = now, ipAddress = ip\<rparr>])\<rparr>)))"

text \<open>
  \<^verbatim>\<open>getRecentUploads\<close> sorts \<^verbatim>\<open>this.uploads[userId] || []\<close> with \<^verbatim>\<open>Array.prototype.sort\<close>,
  which sorts the stored array in place (stable, newest first), and returns a slice. An
  inherited value is truthy and has no \<^verbatim>\<open>sort\<close>.
\<close>

definition JSONUserManager_getRecentUploads ::
  "string \<Rightarrow> nat \<Rightarrow> json_state \<Rightarrow> (upload_error + upload_record list) \<times> json_state" where
  "JSONUserManager_getRecentUploads uid limit s =
     (case property_of (prototypeLastActivity s) (uploads s) uid of
        Undefined \<Rightarrow> (Inr [], s)
      | Inherited v \<Rightarrow> (Inl (TypeError ''userUploads.sort is not a function''), s)
      | Own l \<Rightarrow>
          (let sorted = sort_key (\<lambda>r. - recCreatedAt r) l
           in (Inr (take limit sorted), s\<lparr>uploads := (uploads s)(uid \<mapsto> sorted)\<rparr>)))"

text \<open>\<^verbatim>\<open>cleanup\<close> goes through \<^verbatim>\<open>Object.keys(this.rateLimits)\<close>, the own keys.\<close>

definition JSONUserManager_cleanup :: "int \<Rightarrow> int \<Rightarrow> json_state \<Rightarrow> json_state" where
  "JSONUserManager_cleanup daysOld now s =
     (let cutoffTime =
            js_minus now (js_times (js_times (js_times (js_times daysOld 24) 60) 60) 1000)
      in s\<lparr>rateLimits := (\<lambda>uid. map_option (filter (\<lambda>request. timestamp request > cutoffTime))
                                 (rateLimits s uid))\<rparr>)"

subsection \<open>Operation sequences on the JSON ledger\<close>

text \<open>
  The operations that write to the stores. The state after an operation that throws is the
  state at the throw.
\<close>

datatype json_op =
    CreateOrGetUser string "string option" int
  | RecordUpload string upload_data string int
  | CheckRateLimit string string int int int
  | GetRecentUploads string nat
  | Cleanup int int

fun json_step :: "json_op \<Rightarrow> json_state \<Rightarrow> json_state" where
  "json_step (CreateOrGetUser uid em now) s = snd (JSONUserManager_createOrGetUser uid em now s)"
| "json_step (RecordUpload uid d uuid now) s = snd (JSONUserManager_recordUpload uid d uuid now s)"
| "json_step (CheckRateLimit uid ip w m now) s = snd (JSONUserManager_checkRateLimit uid ip w m now s)"
| "json_step (GetRecentUploads uid limit) s = snd (JSONUserManager_getRecentUploads uid limit s)"
| "json_step (Cleanup daysOld now) s = JSONUserManager_cleanup daysOld now s"

fun json_run :: "json_state \<Rightarrow> json_op list \<Rightarrow> json_state" where
  "json_run s [] = s"
| "json_run s (x # xs) = json_run (json_step x s) xs"

text \<open>
  \<open>preceded known ops\<close>: every \<^verbatim>\<open>recordUpload\<close> in \<open>ops\<close> is for an identity that is in
  \<open>known\<close> or was passed to an earlier \<^verbatim>\<open>createOrGetUser\<close> of \<open>ops\<close>.
\<close>

fun preceded :: "string list \<Rightarrow> json_op list \<Rightarrow> bool" where
  "preceded known [] = True"
| "preceded known (CreateOrGetUser uid em now # ops) = preceded (uid # known) ops"
| "preceded known (RecordUpload uid d uuid now # ops) = (uid \<in> set known \<and> preceded known ops)"
| "preceded known (x # ops) = preceded known ops"

text \<open>
  \<open>exact_run s ops\<close>: in the run of \<open>ops\<close> from \<open>s\<close>, the statistics that \<^verbatim>\<open>recordUpload\<close>
  adds up stay within the integers that a double holds exactly.
\<close>

fun exact_step :: "json_state \<Rightarrow> json_op \<Rightarrow> bool" where
  "exact_step s (RecordUpload uid d uuid now) =
     (case users s uid of
        None \<Rightarrow> True
      | Some u \<Rightarrow>
          \<bar>totalUploads u + 1\<bar> \<le> 9007199254740992 \<and>
          \<bar>totalSizeBytes u + fileSize d\<bar> \<le> 9007199254740992)"
| "exact_step s x = True"

fun exact_run :: "json_state \<Rightarrow> json_op list \<Rightarrow> bool" where
  "exact_run s [] = True"
| "exact_run s (x # xs) = (exact_step s x \<and> exact_run (json_step x s) xs)"

text \<open>The statistics of an identity agree with its stored upload records.\<close>

definition stats_match :: "json_state \<Rightarrow> string \<Rightarrow> bool" where
  "stats_match s uid =
     (case users s uid of
        None \<Rightarrow> True
      | Some user \<Rightarrow>
          totalUploads user = int (length (uploads_of s uid)) \<and>
          totalSizeBytes user = sum_list (map fileSize (uploads_of s uid)))"

text \<open>
  A ledger in which the statistics agree and no identity that could still be given a user
  record has upload records without one.
\<close>

definition consistent :: "json_state \<Rightarrow> bool" where
  "consistent s =
     (\<forall>uid. stats_match s uid \<and>
        (users s uid = None \<and> Object_prototype (prototypeLastActivity s) uid = None \<longrightarrow>
           uploads_of s uid = []))"

text \<open>A sample \<^verbatim>\<open>uploadData\<close> argument and two sample operation sequences.\<close>

definition sample_upload :: upload_data where
  "sample_upload = \<lparr>transactionId = ''tx1'', fileName = ''logo.png'', fileSize = 10,
     contentType = ''image/png'', publicURL = ''https://gateway.irys.xyz/tx1'', uploadTime = 5\<rparr>"

definition ops_created_first :: "json_op list" where
  "ops_created_first =
     [CreateOrGetUser ''w1'' None 1, RecordUpload ''w1'' sample_upload ''id1'' 2,
      GetRecentUploads ''w1'' 10]"

text \<open>Two uploads whose sizes add up to an integer that no double holds.\<close>

definition ops_beyond_safe_integers :: "json_op list" where
  "ops_beyond_safe_integers =
     [CreateOrGetUser ''w1'' None 1,
      RecordUpload ''w1'' (sample_upload\<lparr>fileSize := 9007199254740992\<rparr>) ''id1'' 2,
      RecordUpload ''w1'' (sample_upload\<lparr>fileSize := 1\<rparr>) ''id2'' 3]"

definition ops_recorded_first :: "json_op list" where
  "ops_recorded_first =
     [RecordUpload ''w1'' sample_upload ''id1'' 1, CreateOrGetUser ''w1'' None 2]"

section \<open>SQLite ledger backends\<close>

subsection \<open>Timestamps as text\<close>

text \<open>
  The SQLite backends store instants as text. A column declared
  \<^verbatim>\<open>DATETIME DEFAULT CURRENT_TIMESTAMP\<close> receives SQLite's \<^verbatim>\<open>CURRENT_TIMESTAMP\<close>, the UTC time as
  \<^verbatim>\<open>YYYY-MM-DD HH:MM:SS\<close>; the cutoff that the rate limiters bind to their query is
  \<^verbatim>\<open>new Date(ms).toISOString()\<close>, the UTC time as \<^verbatim>\<open>YYYY-MM-DDTHH:MM:SS.sssZ\<close>. SQLite compares
  two text values byte by byte (\<^verbatim>\<open>memcmp\<close>, the \<^verbatim>\<open>BINARY\<close> collation), a proper prefix being the
  smaller. The calendar date of an instant is computed from the day number by the usual
  era/day-of-era arithmetic of the proleptic Gregorian calendar; instants are non-negative
  milliseconds since the epoch, in years of four digits.
\<close>

record civil_time =
  year :: int
  month :: int
  day :: int
  hour :: int
  minute :: int
  second :: int
  millis :: int

definition civil_from_ms :: "int \<Rightarrow> civil_time" where
  "civil_from_ms ms =
     (let days = ms div 86400000;
          rest = ms mod 86400000;
          z = days + 719468;
          era = z div 146097;
          doe = z mod 146097;
          yoe = (doe - doe div 1460 + doe div 36524 - doe div 146096) div 365;
          doy = doe - (365 * yoe + yoe div 4 - yoe div 100);
          mp = (5 * doy + 2) div 153;
          d = doy - (153 * mp + 2) div 5 + 1;
          m = (if mp < 10 then mp + 3 else mp - 9);
          y = yoe + era * 400 + (if m \<le> 2 then 1 else 0)
      in \<lparr>year = y, month = m, day = d,
          hour = rest div 3600000, minute = (rest div 60000) mod 60,
          second = (rest div 1000) mod 60, millis = rest mod 1000\<rparr>)"

definition pad2 :: "int \<Rightarrow> string" where
  "pad2 n = [digit_char (n div 10), digit_char n]"

definition pad3 :: "int \<Rightarrow> string" where
  "pad3 n = [digit_char (n div 100), digit_char (n div 10), digit_char n]"

definition pad4 :: "int \<Rightarrow> string" where
  "pad4 n = [digit_char (n div 1000), digit_char (n div 100), digit_char (n div 10), digit_char n]"

definition date_text :: "civil_time \<Rightarrow> string" where
  "date_text t = pad4 (year t) @ ''-'' @ pad2 (month t) @ ''-'' @ pad2 (day t)"

definition clock_text :: "civil_time \<Rightarrow> string" where
  "clock_text t = pad2 (hour t) @ '':'' @ pad2 (minute t) @ '':'' @ pad2 (second t)"

definition toISOString :: "int \<Rightarrow> string" where
  "toISOString ms =
     (let t = civil_from_ms ms
      in date_text t @ ''T'' @ clock_text t @ ''.'' @ pad3 (millis t) @ ''Z'')"

definition CURRENT_TIMESTAMP :: "int \<Rightarrow> string" where
  "CURRENT_TIMESTAMP ms = (let t = civil_from_ms ms in date_text t @ '' '' @ clock_text t)"

fun text_less :: "string \<Rightarrow> string \<Rightarrow> bool" where
  "text_less [] [] = False"
| "text_less [] (y # ys) = True"
| "text_less (x # xs) [] = False"
| "text_less (x # xs) (y # ys) =
     ((of_char x :: nat) < of_char y \<or> (x = y \<and> text_less xs ys))"

text \<open>The SQL comparison \<^verbatim>\<open>a > b\<close> on two text values.\<close>

definition text_greater :: "string \<Rightarrow> string \<Rightarrow> bool" where
  "text_greater a b = text_less b a"

text \<open>
  The outcome of a promise wrapped around a call of the \<^verbatim>\<open>sqlite3\<close> driver: resolved,
  rejected with the driver's error, or never settled because the callback itself threw.
\<close>

datatype 'a settled = Resolved 'a | Rejected string | CallbackThrew string

record rate_limit_row =
  rl_user :: string
  rl_request_time :: string
  rl_ip_address :: string

subsection \<open>\<^verbatim>\<open>UserManager\<close> (src/src/user-database.js)\<close>

text \<open>
  The tables \<^verbatim>\<open>user_sessions\<close>, \<^verbatim>\<open>upload_history\<close> and \<^verbatim>\<open>rate_limits\<close>, as lists of rows in
  insertion order. \<^verbatim>\<open>user_sessions.user_id\<close> is declared \<^verbatim>\<open>UNIQUE\<close>; \<^verbatim>\<open>upload_history\<close> declares
  no uniqueness: \<^verbatim>\<open>transaction_id TEXT NOT NULL\<close>. The schema declares foreign keys, which
  SQLite enforces only after \<^verbatim>\<open>PRAGMA foreign_keys = ON\<close>; no source file issues it, so no
  insert is refused for a missing parent row. Rows are never deleted from these tables, so
  the \<^verbatim>\<open>AUTOINCREMENT\<close> id of a new row is the number of rows plus one.
\<close>

record user_session_row =
  us_user_id :: string
  us_email :: "string option"
  us_created_at :: string
  us_last_activity :: string
  us_total_uploads :: int
  us_total_size_bytes :: int
  us_status :: string

record upload_history_row =
  uh_id :: nat
  uh_user_id :: string
  uh_transaction_id :: string
  uh_file_name :: string
  uh_file_size :: int
  uh_file_type :: string
  uh_public_url :: string
  uh_upload_time :: int
  uh_created_at :: string

record active_upload_row =
  au_id :: nat
  au_user_id :: string
  au_session_id :: string
  au_file_name :: string
  au_started_at :: string
  au_status :: string

record user_db =
  user_sessions :: "user_session_row list"
  upload_history :: "upload_history_row list"
  rate_limits :: "rate_limit_row list"
  active_uploads :: "active_upload_row list"

definition user_db_empty :: user_db where
  "user_db_empty =
     \<lparr>user_sessions = [], upload_history = [], rate_limits = [], active_uploads = []\<rparr>"

definition UserManager_createOrGetUser ::
  "string \<Rightarrow> string option \<Rightarrow> int \<Rightarrow> user_db \<Rightarrow> user_session_row \<times> user_db" where
  "UserManager_createOrGetUser uid em now db =
     (case find (\<lambda>r. us_user_id r = uid) (user_sessions db) of
        None \<Rightarrow>
          (let row = \<lparr>us_user_id = uid, us_email = em,
                      us_created_at = CURRENT_TIMESTAMP now,
                      us_last_activity = CURRENT_TIMESTAMP now,
                      us_total_uploads = 0, us_total_size_bytes = 0, us_status = ''active''\<rparr>
           in (row, db\<lparr>user_sessions := user_sessions db @ [row]\<rparr>))
      | Some old \<Rightarrow>
          (let row = old\<lparr>us_last_activity := CURRENT_TIMESTAMP now\<rparr>
           in (row, db\<lparr>user_sessions :=
                      map (\<lambda>r. if us_user_id r = uid then row else r) (user_sessions db)\<rparr>)))"

definition UserManager_recordUpload ::
  "string \<Rightarrow> upload_data \<Rightarrow> int \<Rightarrow> user_db \<Rightarrow> nat settled \<times> user_db" where
  "UserManager_recordUpload uid d now db =
     (let lastID = length (upload_history db) + 1;
          row = \<lparr>uh_id = lastID, uh_user_id = uid, uh_transaction_id = transactionId d,
                 uh_file_name = fileName d, uh_file_size = fileSize d,
                 uh_file_type = contentType d, uh_public_url = publicURL d,
                 uh_upload_time = uploadTime d, uh_created_at = CURRENT_TIMESTAMP now\<rparr>;
          db1 = db\<lparr>upload_history := upload_history db @ [row]\<rparr>;
          db2 = db1\<lparr>user_sessions :=
                  map (\<lambda>r. if us_user_id r = uid
                            then r\<lparr>us_total_uploads := us_total_uploads r + 1,
                                   us_total_size_bytes := us_total_size_bytes r + fileSize d,
                                   us_last_activity := CURRENT_TIMESTAMP now\<rparr>
                            else r) (user_sessions db1)\<rparr>
      in (Resolved lastID, db2))"

definition UserManager_checkRateLimit ::
  "string \<Rightarrow> string \<Rightarrow> int \<Rightarrow> int \<Rightarrow> int \<Rightarrow> user_db \<Rightarrow> rate_result settled \<times> user_db" where
  "UserManager_checkRateLimit uid ip timeWindowMs maxRequests now db =
     (let cutoffTime = toISOString (now - timeWindowMs);
          requestCount = int (length (filter
              (\<lambda>r. rl_user r = uid \<and> text_greater (rl_request_time r) cutoffTime)
              (rate_limits db)));
          isAllowed = (requestCount < maxRequests)
      in if isAllowed
         then (Resolved \<lparr>allowed = True, remaining = maxRequests - requestCount - 1,
                         resetTime = now + timeWindowMs\<rparr>,
               db\<lparr>rate_limits := rate_limits db @
                    [\<lparr>rl_user = uid, rl_request_time = CURRENT_TIMESTAMP now,
                      rl_ip_address = ip\<rparr>]\<rparr>)
         else (Resolved \<lparr>allowed = False, remaining = 0, resetTime = now + timeWindowMs\<rparr>, db))"

definition UserManager_startUpload ::
  "string \<Rightarrow> string \<Rightarrow> string \<Rightarrow> int \<Rightarrow> user_db \<Rightarrow> nat \<times> user_db" where
  "UserManager_startUpload uid sessionId fname now db =
     (let lastID = length (active_uploads db) + 1
      in (lastID,
          db\<lparr>active_uploads := active_uploads db @
               [\<lparr>au_id = lastID, au_user_id = uid, au_session_id = sessionId,
                 au_file_name = fname, au_started_at = CURRENT_TIMESTAMP now,
                 au_status = ''uploading''\<rparr>]\<rparr>))"

definition UserManager_completeUpload :: "nat \<Rightarrow> string \<Rightarrow> user_db \<Rightarrow> user_db" where
  "UserManager_completeUpload uploadSessionId newStatus db =
     db\<lparr>active_uploads :=
          map (\<lambda>r. if au_id r = uploadSessionId then r\<lparr>au_status := newStatus\<rparr> else r)
            (active_uploads db)\<rparr>"

subsection \<open>\<^verbatim>\<open>ProductionDatabase\<close> (src/src/multi-user-api.js, the production service)\<close>

text \<open>
  The tables \<^verbatim>\<open>users\<close>, \<^verbatim>\<open>uploads\<close>, \<^verbatim>\<open>token_assets\<close> and \<^verbatim>\<open>rate_limits\<close>. Here
  \<^verbatim>\<open>uploads.transaction_id\<close> is declared \<^verbatim>\<open>TEXT UNIQUE NOT NULL\<close>, and \<^verbatim>\<open>token_assets\<close> declares
  \<^verbatim>\<open>FOREIGN KEY (logo_transaction_id) REFERENCES uploads (transaction_id)\<close> and the same for
  \<^verbatim>\<open>metadata_transaction_id\<close>; as in the other backend, \<^verbatim>\<open>PRAGMA foreign_keys\<close> is never switched
  on, so these references are not checked.
\<close>

type_synonym tag = "string \<times> string"

record upload_result = upload_data +
  urCategory :: string
  urSessionId :: string

record wallet_user_row =
  wu_wallet_address :: string
  wu_created_at :: string
  wu_last_activity :: string
  wu_total_uploads :: int
  wu_total_size_bytes :: int
  wu_status :: string

record upload_row =
  up_id :: nat
  up_wallet_address :: string
  up_transaction_id :: string
  up_file_name :: string
  up_file_size :: int
  up_file_type :: string
  up_category :: string
  up_public_url :: string
  up_metadata_json :: "token_metadata option"
  up_upload_time_ms :: int
  up_created_at :: string
  up_tags_json :: "tag list option"
  up_session_id :: string

record token_asset_row =
  ta_id :: nat
  ta_wallet_address :: string
  ta_token_name :: string
  ta_token_symbol :: string
  ta_logo_transaction_id :: string
  ta_logo_url :: string
  ta_metadata_transaction_id :: string
  ta_metadata_url :: string
  ta_metadata_json :: token_metadata
  ta_created_at :: string
  ta_session_id :: string

record prod_db =
  users_table :: "wallet_user_row list"
  uploads_table :: "upload_row list"
  token_assets_table :: "token_asset_row list"
  rate_limits_table :: "rate_limit_row list"

definition prod_db_empty :: prod_db where
  "prod_db_empty =
     \<lparr>users_table = [], uploads_table = [], token_assets_table = [], rate_limits_table = []\<rparr>"

definition ProductionDatabase_createOrUpdateUser ::
  "string \<Rightarrow> int \<Rightarrow> prod_db \<Rightarrow> wallet_user_row \<times> prod_db" where
  "ProductionDatabase_createOrUpdateUser wallet now db =
     (case find (\<lambda>r. wu_wallet_address r = wallet) (users_table db) of
        None \<Rightarrow>
          (let row = \<lparr>wu_wallet_address = wallet, wu_created_at = CURRENT_TIMESTAMP now,
                      wu_last_activity = CURRENT_TIMESTAMP now,
                      wu_total_uploads = 0, wu_total_size_bytes = 0, wu_status = ''active''\<rparr>
           in (row, db\<lparr>users_table := users_table db @ [row]\<rparr>))
      | Some old \<Rightarrow>
          (let row = old\<lparr>wu_last_activity := CURRENT_TIMESTAMP now\<rparr>
           in (row, db\<lparr>users_table :=
                      map (\<lambda>r. if wu_wallet_address r = wallet then row else r)
                        (users_table db)\<rparr>)))"

text \<open>
  \<^verbatim>\<open>recordUpload\<close>. The insert is refused by the \<^verbatim>\<open>UNIQUE\<close> constraint when the transaction id is
  already in \<^verbatim>\<open>uploads\<close>; the promise is then rejected with the driver's error and nothing is
  written. Otherwise the row is inserted and the driver calls the callback, a
  \<^verbatim>\<open>function(err) { ... }\<close>, with the statement object as \<^verbatim>\<open>this\<close> (the object whose \<^verbatim>\<open>lastID\<close>
  the code reads two lines further down). The callback's next statement is
  \<^verbatim>\<open>this.db.run(updateUserSQL, ...)\<close>: the statement object has no \<^verbatim>\<open>db\<close>, the member access
  throws a \<^verbatim>\<open>TypeError\<close> inside the callback, the \<^verbatim>\<open>UPDATE users\<close> is never issued and the
  promise is neither resolved nor rejected. (\<^verbatim>\<open>UserManager.recordUpload\<close> calls the module's own
  \<^verbatim>\<open>db.run\<close> at this place.)
\<close>

definition ProductionDatabase_recordUpload ::
  "string \<Rightarrow> upload_result \<Rightarrow> token_metadata option \<Rightarrow> tag list option \<Rightarrow> int \<Rightarrow> prod_db \<Rightarrow>
     nat settled \<times> prod_db" where
  "ProductionDatabase_recordUpload wallet d metadataJson tagsJson now db =
     (if \<exists>r \<in> set (uploads_table db). up_transaction_id r = transactionId d
      then (Rejected ''SQLITE_CONSTRAINT: UNIQUE constraint failed: uploads.transaction_id'', db)
      else
        (let row = \<lparr>up_id = length (uploads_table db) + 1, up_wallet_address = wallet,
                    up_transaction_id = transactionId d, up_file_name = fileName d,
                    up_file_size = fileSize d, up_file_type = contentType d,
                    up_category = urCategory d, up_public_url = publicURL d,
                    up_metadata_json = metadataJson, up_upload_time_ms = uploadTime d,
                    up_created_at = CURRENT_TIMESTAMP now, up_tags_json = tagsJson,
                    up_session_id = urSessionId d\<rparr>
         in (CallbackThrew ''TypeError: this.db is undefined'',
             db\<lparr>uploads_table := uploads_table db @ [row]\<rparr>)))"

record token_asset_data =
  tad_name :: string
  tad_symbol :: string
  tad_metadata :: token_metadata

definition ProductionDatabase_recordTokenAsset ::
  "string \<Rightarrow> token_asset_data \<Rightarrow> upload_result \<Rightarrow> upload_result \<Rightarrow> string \<Rightarrow> int \<Rightarrow> prod_db \<Rightarrow>
     nat settled \<times> prod_db" where
  "ProductionDatabase_recordTokenAsset wallet tokenData logoData metadataData sessionId now db =
     (let lastID = length (token_assets_table db) + 1;
          row = \<lparr>ta_id = lastID, ta_wallet_address = wallet,
                 ta_token_name = tad_name tokenData, ta_token_symbol = tad_symbol tokenData,
                 ta_logo_transaction_id = transactionId logoData,
                 ta_logo_url = publicURL logoData,
                 ta_metadata_transaction_id = transactionId metadataData,
                 ta_metadata_url = publicURL metadataData,
                 ta_metadata_json = tad_metadata tokenData,
                 ta_created_at = CURRENT_TIMESTAMP now, ta_session_id = sessionId\<rparr>
      in (Resolved lastID, db\<lparr>token_assets_table := token_assets_table db @ [row]\<rparr>))"

text \<open>
  \<^verbatim>\<open>checkRateLimit\<close> reads its window and ceiling from \<^verbatim>\<open>CONFIG.RATE_LIMIT_WINDOW\<close> and
  \<^verbatim>\<open>CONFIG.RATE_LIMIT_PER_MINUTE\<close>.
\<close>

definition ProductionDatabase_checkRateLimit ::
  "int \<Rightarrow> int \<Rightarrow> string \<Rightarrow> string \<Rightarrow> int \<Rightarrow> prod_db \<Rightarrow> rate_result settled \<times> prod_db" where
  "ProductionDatabase_checkRateLimit RATE_LIMIT_WINDOW RATE_LIMIT_PER_MINUTE wallet ip now db =
     (let cutoffTime = toISOString (now - RATE_LIMIT_WINDOW);
          requestCount = int (length (filter
              (\<lambda>r. rl_user r = wallet \<and> text_greater (rl_request_time r) cutoffTime)
              (rate_limits_table db)));
          isAllowed = (requestCount < RATE_LIMIT_PER_MINUTE)
      in if isAllowed
         then (Resolved \<lparr>allowed = True, remaining = RATE_LIMIT_PER_MINUTE - requestCount - 1,
                         resetTime = now + RATE_LIMIT_WINDOW\<rparr>,
               db\<lparr>rate_limits_table := rate_limits_table db @
                    [\<lparr>rl_user = wallet, rl_request_time = CURRENT_TIMESTAMP now,
                      rl_ip_address = ip\<rparr>]\<rparr>)
         else (Resolved \<lparr>allowed = False, remaining = 0, resetTime = now + RATE_LIMIT_WINDOW\<rparr>,
               db))"

subsection \<open>Sample ledger inputs\<close>

text \<open>
  12:00:30 and 12:00:31 UTC on 1 January 2024, in milliseconds since the epoch; and a ledger
  of the production service holding one user and no upload.
\<close>

definition noon_30 :: int where
  "noon_30 = 1704110430000"

definition noon_31 :: int where
  "noon_31 = 1704110431000"

definition sample_metadata :: token_metadata where
  "sample_metadata =
     \<lparr>mdName = ''My Token'', mdSymbol = ''MT'', mdDescription = ''Test token'',
      image = ''https://gateway.irys.xyz/L1'', external_url = '''', attributes = [],
      files = [\<lparr>uri = ''https://gateway.irys.xyz/L1'', declaredType = ''image/png''\<rparr>],
      mdCategory = ''image'', creators = [], mdFileSize = None, mdUploadDetails = None\<rparr>"

definition sample_logo_result :: upload_result where
  "sample_logo_result =
     \<lparr>transactionId = ''L1'', fileName = ''logo.png'', fileSize = 1000,
      contentType = ''image/png'', publicURL = ''https://gateway.irys.xyz/L1'',
      uploadTime = 40, urCategory = ''image'', urSessionId = ''token_w1_1''\<rparr>"

definition sample_metadata_result :: upload_result where
  "sample_metadata_result =
     \<lparr>transactionId = ''M1'', fileName = ''metadata_token_w1_1.json'', fileSize = 300,
      contentType = ''application/json'', publicURL = ''https://gateway.irys.xyz/M1'',
      uploadTime = 30, urCategory = ''document'', urSessionId = ''token_w1_1''\<rparr>"

definition prod_db_one_user :: prod_db where
  "prod_db_one_user = snd (ProductionDatabase_createOrUpdateUser ''w1'' noon_30 prod_db_empty)"

definition user_db_one_user :: user_db where
  "user_db_one_user = snd (UserManager_createOrGetUser ''w1'' None noon_30 user_db_empty)"

section \<open>Connection pools\<close>

text \<open>
  A connection is an opaque handle; \<^verbatim>\<open>Uploader(Solana).withWallet(key)\<close>, which constructs one,
  is outside the repository and may fail: its outcome is an input of \<^verbatim>\<open>getConnection\<close>.
  An acquirer that finds no handle receives a pending promise: the pool keeps the promise's
  \<^verbatim>\<open>resolve\<close> callback, modelled by the identity of the waiting acquirer.
  \<^verbatim>\<open>Array.prototype.pop\<close> takes the last element, \<^verbatim>\<open>push\<close> appends, \<^verbatim>\<open>shift\<close> takes the first.
\<close>

type_synonym connection = nat
type_synonym acquirer = nat

datatype acquired = Acquired connection | ConstructionFailed string | Suspended

subsection \<open>\<^verbatim>\<open>ConnectionPool\<close> (src/unnamed/part\_001, the multi-user service)\<close>

record connection_pool =
  pool :: "connection list"
  activeConnections :: int
  maxConnections :: int
  waitingQueue :: "acquirer list"

definition ConnectionPool_new :: "int \<Rightarrow> connection_pool" where
  "ConnectionPool_new maxConns =
     \<lparr>pool = [], activeConnections = 0, maxConnections = maxConns, waitingQueue = []\<rparr>"

definition ConnectionPool_getConnection ::
  "acquirer \<Rightarrow> string + connection \<Rightarrow> connection_pool \<Rightarrow> acquired \<times> connection_pool" where
  "ConnectionPool_getConnection who construct s =
     (if length (pool s) > 0 then (Acquired (last (pool s)), s\<lparr>pool := butlast (pool s)\<rparr>)
      else if activeConnections s < maxConnections s then
        (let s1 = s\<lparr>activeConnections := activeConnections s + 1\<rparr>
         in case construct of
              Inl err \<Rightarrow> (ConstructionFailed err, s1)
            | Inr uploader \<Rightarrow> (Acquired uploader, s1))
      else (Suspended, s\<lparr>waitingQueue := waitingQueue s @ [who]\<rparr>))"

text \<open>
  \<^verbatim>\<open>releaseConnection\<close> returns, beside the new state, the promise it resolved, if any:
  the acquirer woken and the handle it receives.
\<close>

definition ConnectionPool_releaseConnection ::
  "connection \<Rightarrow> connection_pool \<Rightarrow> (acquirer \<times> connection) option \<times> connection_pool" where
  "ConnectionPool_releaseConnection uploader s =
     (case waitingQueue s of
        waitingRequest # rest \<Rightarrow> (Some (waitingRequest, uploader), s\<lparr>waitingQueue := rest\<rparr>)
      | [] \<Rightarrow> (None, s\<lparr>pool := pool s @ [uploader]\<rparr>))"

subsection \<open>\<^verbatim>\<open>UltraFastConnectionPool\<close> (src/src/multi-user-api.js, the production service)\<close>

record pool_stats =
  created :: int
  reused :: int
  errors :: int

record ultra_pool =
  upool :: "connection list"
  active :: "connection list"
  waiting :: "acquirer list"
  umaxConnections :: int
  ustats :: pool_stats

definition UltraFastConnectionPool_new :: "int \<Rightarrow> ultra_pool" where
  "UltraFastConnectionPool_new maxConns =
     \<lparr>upool = [], active = [], waiting = [], umaxConnections = maxConns,
      ustats = \<lparr>created = 0, reused = 0, errors = 0\<rparr>\<rparr>"

definition UltraFastConnectionPool_getConnection ::
  "acquirer \<Rightarrow> string + connection \<Rightarrow> ultra_pool \<Rightarrow> acquired \<times> ultra_pool" where
  "UltraFastConnectionPool_getConnection who construct s =
     (if length (upool s) > 0 then
        (let conn = last (upool s)
         in (Acquired conn,
             s\<lparr>upool := butlast (upool s), active := active s @ [conn],
               ustats := (ustats s)\<lparr>reused := reused (ustats s) + 1\<rparr>\<rparr>))
      else if int (length (active s)) < umaxConnections s then
        (case construct of
           Inr conn \<Rightarrow>
             (Acquired conn,
              s\<lparr>active := active s @ [conn],
                ustats := (ustats s)\<lparr>created := created (ustats s) + 1\<rparr>\<rparr>)
         | Inl err \<Rightarrow>
             (ConstructionFailed err, s\<lparr>ustats := (ustats s)\<lparr>errors := errors (ustats s) + 1\<rparr>\<rparr>))
      else (Suspended, s\<lparr>waiting := waiting s @ [who]\<rparr>))"

text \<open>
  \<open>UltraFastConnectionPool_getConnection\<close> is an acquire that no other call of the pool
  interleaves with. The source tests \<^verbatim>\<open>this.active.length\<close> before it awaits the construction
  and pushes the handle after it, so that another acquire can run in between: the two steps
  of such an acquire are \<open>UltraFastConnectionPool_getConnection_begin\<close>, up to the \<^verbatim>\<open>await\<close>,
  and \<open>UltraFastConnectionPool_getConnection_resume\<close>, from the settled construction on.
\<close>

datatype acquire_started = Reused connection | Constructing | Queued

definition UltraFastConnectionPool_getConnection_begin ::
  "acquirer \<Rightarrow> ultra_pool \<Rightarrow> acquire_started \<times> ultra_pool" where
  "UltraFastConnectionPool_getConnection_begin who s =
     (if length (upool s) > 0 then
        (let conn = last (upool s)
         in (Reused conn,
             s\<lparr>upool := butlast (upool s), active := active s @ [conn],
               ustats := (ustats s)\<lparr>reused := reused (ustats s) + 1\<rparr>\<rparr>))
      else if int (length (active s)) < umaxConnections s then (Constructing, s)
      else (Queued, s\<lparr>waiting := waiting s @ [who]\<rparr>))"

definition UltraFastConnectionPool_getConnection_resume ::
  "string + connection \<Rightarrow> ultra_pool \<Rightarrow> acquired \<times> ultra_pool" where
  "UltraFastConnectionPool_getConnection_resume construct s =
     (case construct of
        Inr conn \<Rightarrow>
          (Acquired conn,
           s\<lparr>active := active s @ [conn],
             ustats := (ustats s)\<lparr>created := created (ustats s) + 1\<rparr>\<rparr>)
      | Inl err \<Rightarrow>
          (ConstructionFailed err, s\<lparr>ustats := (ustats s)\<lparr>errors := errors (ustats s) + 1\<rparr>\<rparr>))"

text \<open>\<^verbatim>\<open>indexOf\<close> and \<^verbatim>\<open>splice(index, 1)\<close> remove the first occurrence of the handle.\<close>

definition UltraFastConnectionPool_releaseConnection ::
  "connection \<Rightarrow> ultra_pool \<Rightarrow> (acquirer \<times> connection) option \<times> ultra_pool" where
  "UltraFastConnectionPool_releaseConnection conn s =
     (let s1 = s\<lparr>active := remove1 conn (active s)\<rparr>
      in case waiting s1 of
           resolve # rest \<Rightarrow>
             (Some (resolve, conn), s1\<lparr>waiting := rest, active := active s1 @ [conn]\<rparr>)
         | [] \<Rightarrow> (None, s1\<lparr>upool := upool s1 @ [conn]\<rparr>))"

subsection \<open>The simple pool of src/src/api-production-final.js\<close>

text \<open>
  The final API server keeps \<^verbatim>\<open>connectionPool\<close> and \<^verbatim>\<open>activeConnections\<close> in module variables,
  with \<^verbatim>\<open>maxConnections = 10\<close>. It has no queue of waiting acquirers: an acquirer that finds no
  handle awaits a 100 ms timer and calls \<^verbatim>\<open>getConnection\<close> again. The acquirers suspended in
  that timer are part of the state of the running server; the model lists them in \<open>sleeping\<close>.
  One call of \<open>simple_getConnection\<close> is one pass through the body of \<^verbatim>\<open>getConnection\<close>;
  \<open>simple_timer_fires\<close> is the retry of a sleeping acquirer.
\<close>

record simple_pool =
  connectionPool :: "connection list"
  simpleActive :: int
  sleeping :: "acquirer list"

definition simple_maxConnections :: int where
  "simple_maxConnections = 10"

definition simple_pool_new :: simple_pool where
  "simple_pool_new = \<lparr>connectionPool = [], simpleActive = 0, sleeping = []\<rparr>"

definition simple_getConnection ::
  "acquirer \<Rightarrow> string + connection \<Rightarrow> simple_pool \<Rightarrow> acquired \<times> simple_pool" where
  "simple_getConnection who construct s =
     (if length (connectionPool s) > 0
      then (Acquired (last (connectionPool s)), s\<lparr>connectionPool := butlast (connectionPool s)\<rparr>)
      else if simpleActive s < simple_maxConnections then
        (let s1 = s\<lparr>simpleActive := simpleActive s + 1\<rparr>
         in case construct of
              Inl err \<Rightarrow> (ConstructionFailed err, s1)
            | Inr uploader \<Rightarrow> (Acquired uploader, s1))
      else (Suspended, s\<lparr>sleeping := sleeping s @ [who]\<rparr>))"

definition simple_timer_fires ::
  "acquirer \<Rightarrow> string + connection \<Rightarrow> simple_pool \<Rightarrow> acquired \<times> simple_pool" where
  "simple_timer_fires who construct s =
     simple_getConnection who construct (s\<lparr>sleeping := remove1 who (sleeping s)\<rparr>)"

definition simple_releaseConnection :: "connection \<Rightarrow> simple_pool \<Rightarrow> simple_pool" where
  "simple_releaseConnection conn s = s\<lparr>connectionPool := connectionPool s @ [conn]\<rparr>"

subsection \<open>Sequences of releases, and sample runs\<close>

text \<open>Releasing a list of handles one after the other; the promises resolved, in order.\<close>

fun ConnectionPool_release_all ::
  "connection list \<Rightarrow> connection_pool \<Rightarrow> (acquirer \<times> connection) list \<times> connection_pool" where
  "ConnectionPool_release_all [] s = ([], s)"
| "ConnectionPool_release_all (c # cs) s =
     (let (woken, s1) = ConnectionPool_releaseConnection c s;
          (rest, s2) = ConnectionPool_release_all cs s1
      in (case woken of None \<Rightarrow> rest | Some d \<Rightarrow> d # rest, s2))"

fun UltraFastConnectionPool_release_all ::
  "connection list \<Rightarrow> ultra_pool \<Rightarrow> (acquirer \<times> connection) list \<times> ultra_pool" where
  "UltraFastConnectionPool_release_all [] s = ([], s)"
| "UltraFastConnectionPool_release_all (c # cs) s =
     (let (woken, s1) = UltraFastConnectionPool_releaseConnection c s;
          (rest, s2) = UltraFastConnectionPool_release_all cs s1
      in (case woken of None \<Rightarrow> rest | Some d \<Rightarrow> d # rest, s2))"

text \<open>
  The simple pool after ten acquirers have each constructed a connection and an eleventh,
  acquirer 11, has found the pool exhausted.
\<close>

definition simple_pool_exhausted :: simple_pool where
  "simple_pool_exhausted =
     snd (simple_getConnection 11 (Inr 11)
       (foldl (\<lambda>s k. snd (simple_getConnection k (Inr k) s)) simple_pool_new
          [1, 2, 3, 4, 5, 6, 7, 8, 9, 10]))"

section \<open>File validation\<close>

subsection \<open>\<^verbatim>\<open>validateAndDetectFile\<close> (src/unnamed/part\_004, the token creator with size limits)\<close>

record file_entry_type =
  mime :: string
  ftype :: string
  category :: string

record size_config =
  MAX_UPLOAD_SIZE :: int
  MAX_IMAGE_SIZE :: int
  MAX_VIDEO_SIZE :: int
  MAX_AUDIO_SIZE :: int

definition default_size_config :: size_config where
  "default_size_config =
     \<lparr>MAX_UPLOAD_SIZE = 2097152, MAX_IMAGE_SIZE = 2097152,
      MAX_VIDEO_SIZE = 10485760, MAX_AUDIO_SIZE = 5242880\<rparr>"

definition mk_type :: "string \<Rightarrow> string \<Rightarrow> file_entry_type" where
  "mk_type m c = \<lparr>mime = m, ftype = m, category = c\<rparr>"

definition FILE_TYPES :: "string \<rightharpoonup> file_entry_type" where
  "FILE_TYPES = map_of
     [(''.jpg'', mk_type ''image/jpeg'' ''image''),
      (''.jpeg'', mk_type ''image/jpeg'' ''image''),
      (''.png'', mk_type ''image/png'' ''image''),
      (''.gif'', mk_type ''image/gif'' ''image''),
      (''.webp'', mk_type ''image/webp'' ''image''),
      (''.svg'', mk_type ''image/svg+xml'' ''image''),
      (''.bmp'', mk_type ''image/bmp'' ''image''),
      (''.mp4'', mk_type ''video/mp4'' ''video''),
      (''.mov'', mk_type ''video/quicktime'' ''video''),
      (''.webm'', mk_type ''video/webm'' ''video''),
      (''.mp3'', mk_type ''audio/mpeg'' ''audio''),
      (''.wav'', mk_type ''audio/wav'' ''audio''),
      (''.flac'', mk_type ''audio/flac'' ''audio''),
      (''.json'', mk_type ''application/json'' ''document'')]"

text \<open>The \<^verbatim>\<open>switch (fileType.category)\<close> that sets \<^verbatim>\<open>maxAllowedSize\<close>.\<close>

definition maxAllowedSize :: "size_config \<Rightarrow> string \<Rightarrow> int" where
  "maxAllowedSize cfg cat =
     (if cat = ''image'' then min (MAX_IMAGE_SIZE cfg) (MAX_UPLOAD_SIZE cfg)
      else if cat = ''video'' then min (MAX_VIDEO_SIZE cfg) (MAX_UPLOAD_SIZE cfg)
      else if cat = ''audio'' then min (MAX_AUDIO_SIZE cfg) (MAX_UPLOAD_SIZE cfg)
      else MAX_UPLOAD_SIZE cfg)"

record file_info =
  infoSize :: int
  infoType :: file_entry_type
  infoCategory :: string
  maxAllowed :: int

definition validateAndDetectFile ::
  "size_config \<Rightarrow> filesystem \<Rightarrow> string \<Rightarrow> upload_error + file_info" where
  "validateAndDetectFile cfg fs filePath =
     (case fs filePath of
        None \<Rightarrow> Inl (FileNotFound filePath)
      | Some stats \<Rightarrow>
          (let ext = toLowerCase (extname filePath)
           in case FILE_TYPES ext of
                None \<Rightarrow> Inl (UnsupportedFileType ext)
              | Some fileType \<Rightarrow>
                  (let limit = maxAllowedSize cfg (category fileType)
                   in if fsize stats > limit
                      then Inl (FileTooLarge (fsize stats) limit)
                      else Inr \<lparr>infoSize = fsize stats, infoType = fileType,
                                infoCategory = category fileType, maxAllowed = limit\<rparr>)))"

subsection \<open>\<^verbatim>\<open>IrysUploadService.validateFile\<close> (src/src/multi-user-api.js, the production service)\<close>

record supported_type =
  stMime :: string
  stCategory :: string
  maxSize :: int

text \<open>\<^verbatim>\<open>SUPPORTED_TYPES\<close>; its \<^verbatim>\<open>maxSize\<close> entries are computed from \<^verbatim>\<open>CONFIG.MAX_UPLOAD_SIZE\<close>.\<close>

definition SUPPORTED_TYPES :: "int \<Rightarrow> string \<rightharpoonup> supported_type" where
  "SUPPORTED_TYPES maxUpload = map_of
     [(''.jpg'', \<lparr>stMime = ''image/jpeg'', stCategory = ''image'', maxSize = maxUpload\<rparr>),
      (''.jpeg'', \<lparr>stMime = ''image/jpeg'', stCategory = ''image'', maxSize = maxUpload\<rparr>),
      (''.png'', \<lparr>stMime = ''image/png'', stCategory = ''image'', maxSize = maxUpload\<rparr>),
      (''.gif'', \<lparr>stMime = ''image/gif'', stCategory = ''image'', maxSize = maxUpload\<rparr>),
      (''.webp'', \<lparr>stMime = ''image/webp'', stCategory = ''image'', maxSize = maxUpload\<rparr>),
      (''.svg'', \<lparr>stMime = ''image/svg+xml'', stCategory = ''image'', maxSize = maxUpload\<rparr>),
      (''.avif'', \<lparr>stMime = ''image/avif'', stCategory = ''image'', maxSize = maxUpload\<rparr>),
      (''.mp4'', \<lparr>stMime = ''video/mp4'', stCategory = ''video'', maxSize = maxUpload * 5\<rparr>),
      (''.mov'', \<lparr>stMime = ''video/quicktime'', stCategory = ''video'', maxSize = maxUpload * 5\<rparr>),
      (''.webm'', \<lparr>stMime = ''video/webm'', stCategory = ''video'', maxSize = maxUpload * 5\<rparr>),
      (''.mp3'', \<lparr>stMime = ''audio/mpeg'', stCategory = ''audio'', maxSize = maxUpload * 3\<rparr>),
      (''.wav'', \<lparr>stMime = ''audio/wav'', stCategory = ''audio'', maxSize = maxUpload * 3\<rparr>),
      (''.flac'', \<lparr>stMime = ''audio/flac'', stCategory = ''audio'', maxSize = maxUpload * 3\<rparr>),
      (''.pdf'', \<lparr>stMime = ''application/pdf'', stCategory = ''document'', maxSize = maxUpload\<rparr>),
      (''.json'', \<lparr>stMime = ''application/json'', stCategory = ''document'', maxSize = maxUpload\<rparr>)]"

record validated_file =
  vSize :: int
  vType :: supported_type
  vFileName :: string

definition validateFile :: "int \<Rightarrow> filesystem \<Rightarrow> string \<Rightarrow> upload_error + validated_file" where
  "validateFile maxUpload fs filePath =
     (case fs filePath of
        None \<Rightarrow> Inl (FileNotFound filePath)
      | Some stats \<Rightarrow>
          (let ext = toLowerCase (extname filePath)
           in case SUPPORTED_TYPES maxUpload ext of
                None \<Rightarrow> Inl (UnsupportedFileType ext)
              | Some fileType \<Rightarrow>
                  if fsize stats > maxSize fileType
                  then Inl (FileTooLarge (fsize stats) (maxSize fileType))
                  else if fsize stats = 0 then Inl EmptyFile
                  else Inr \<lparr>vSize = fsize stats, vType = fileType,
                            vFileName = basename filePath\<rparr>))"

text \<open>Sample file systems: one file of a given size.\<close>

definition one_file :: "string \<Rightarrow> int \<Rightarrow> filesystem" where
  "one_file p n = [p \<mapsto> \<lparr>fsize = n, body = Binary\<rparr>]"

section \<open>The token uploaders without a ledger\<close>

text \<open>
  The remote storage network is outside the repository: \<^verbatim>\<open>uploader.upload(data, { tags })\<close>
  answers with a receipt, whose \<^verbatim>\<open>id\<close> is the transaction id, or fails. The answer to each
  upload, the time it took and the outcome of constructing the uploader are inputs of the
  model. The state is the file system, the uploader cached in the module, and the log of
  what the network has accepted (the bytes or document sent, with the tags).
  \<^verbatim>\<open>JSON.stringify\<close> is not modelled as text: a written metadata file holds the document, and
  its size in bytes is given by the parameter \<open>json_size\<close>.
\<close>

record world =
  wfiles :: filesystem
  cachedUploader :: bool
  remote_log :: "(file_body \<times> tag list) list"

definition gateway :: string where
  "gateway = ''https://gateway.irys.xyz/''"

definition writeFileSync :: "string \<Rightarrow> file_stat \<Rightarrow> world \<Rightarrow> world" where
  "writeFileSync p f w = w\<lparr>wfiles := (wfiles w)(p \<mapsto> f)\<rparr>"

definition unlinkSync :: "string \<Rightarrow> world \<Rightarrow> world" where
  "unlinkSync p w = w\<lparr>wfiles := (wfiles w)(p := None)\<rparr>"

definition metadata_file_stat :: "(token_metadata \<Rightarrow> int) \<Rightarrow> token_metadata \<Rightarrow> file_stat" where
  "metadata_file_stat json_size md = \<lparr>fsize = json_size md, body = MetadataJson md\<rparr>"

text \<open>\<^verbatim>\<open>getOptimizedUploader\<close> and \<^verbatim>\<open>getUploader\<close>: construct once, then reuse.\<close>

definition getCachedUploader :: "string option \<Rightarrow> world \<Rightarrow> (upload_error + unit) \<times> world" where
  "getCachedUploader construct_error w =
     (if cachedUploader w then (Inr (), w)
      else case construct_error of
             Some err \<Rightarrow> (Inl (ConnectionError err), w)
           | None \<Rightarrow> (Inr (), w\<lparr>cachedUploader := True\<rparr>))"

record token_data =
  td_name :: string
  td_symbol :: string
  td_description :: string
  td_logoPath :: string
  td_website :: "string option"
  td_attributes :: "string list option"
  td_creators :: "string list option"

text \<open>\<^verbatim>\<open>x || ""\<close> and \<^verbatim>\<open>x || []\<close> on an optional field.\<close>

definition or_empty :: "'a list option \<Rightarrow> 'a list" where
  "or_empty x = (case x of None \<Rightarrow> [] | Some v \<Rightarrow> v)"

subsection \<open>\<^verbatim>\<open>fastUpload\<close> (the optimized uploader, third file of src/unnamed/part\_001)\<close>

definition fast_validateFile :: "filesystem \<Rightarrow> string \<Rightarrow> upload_error + int" where
  "fast_validateFile fs filePath =
     (case fs filePath of
        None \<Rightarrow> Inl (FileNotFound filePath)
      | Some st \<Rightarrow>
          if fsize st > 10 * 1024 * 1024
          then Inl (FileTooLarge (fsize st) (10 * 1024 * 1024))
          else Inr (fsize st))"

definition contentTypeMap :: "string \<rightharpoonup> string" where
  "contentTypeMap = map_of
     [(''.jpg'', ''image/jpeg''), (''.jpeg'', ''image/jpeg''), (''.png'', ''image/png''),
      (''.gif'', ''image/gif''), (''.json'', ''application/json''), (''.txt'', ''text/plain'')]"

definition getContentType :: "string \<Rightarrow> string" where
  "getContentType ext =
     (case contentTypeMap ext of None \<Rightarrow> ''application/octet-stream'' | Some t \<Rightarrow> t)"

record fast_result =
  frTransactionId :: string
  frPublicURL :: string
  frFileName :: string
  frFileSize :: int
  frUploadTime :: int

record remote_reply =
  reply :: "string + string"
  took :: int

definition fastUpload ::
  "string \<Rightarrow> tag list \<Rightarrow> string option \<Rightarrow> remote_reply \<Rightarrow> world \<Rightarrow>
     (upload_error + fast_result) \<times> world" where
  "fastUpload filePath customTags construct_error remote w =
     (case fast_validateFile (wfiles w) filePath of
        Inl e \<Rightarrow> (Inl e, w)
      | Inr fileSz \<Rightarrow>
          (case getCachedUploader construct_error w of
             (Inl e, w1) \<Rightarrow> (Inl e, w1)
           | (Inr u, w1) \<Rightarrow>
               (case wfiles w1 filePath of
                  None \<Rightarrow> (Inl (FileNotFound filePath), w1)
                | Some st \<Rightarrow>
                    (let name = basename filePath;
                         ext = toLowerCase (extname filePath);
                         tags = [(''Content-Type'', getContentType ext), (''File-Name'', name)]
                                @ customTags
                     in case reply remote of
                          Inl msg \<Rightarrow> (Inl (RemoteUploadError msg), w1)
                        | Inr rid \<Rightarrow>
                            (Inr \<lparr>frTransactionId = rid, frPublicURL = gateway @ rid,
                                  frFileName = name, frFileSize = fileSz,
                                  frUploadTime = took remote\<rparr>,
                             w1\<lparr>remote_log := remote_log w1 @ [(body st, tags)]\<rparr>)))))"

subsection \<open>\<^verbatim>\<open>uploadTokenAssets\<close> (src/unnamed/part\_003)\<close>

record token_assets =
  logoURL :: string
  metadataURL :: string
  logoTxId :: string
  metadataTxId :: string
  totalTime :: int

definition temp_metadata_path :: string where
  "temp_metadata_path = ''./temp_metadata.json''"

definition uploadTokenAssets ::
  "(token_metadata \<Rightarrow> int) \<Rightarrow> token_data \<Rightarrow> string option \<Rightarrow> remote_reply \<Rightarrow> remote_reply \<Rightarrow>
     world \<Rightarrow> (upload_error + token_assets) \<times> world" where
  "uploadTokenAssets json_size tokenData construct_error remote1 remote2 w =
     (let metadata =
            \<lparr>mdName = td_name tokenData, mdSymbol = td_symbol tokenData,
             mdDescription = td_description tokenData, image = '''',
             external_url = or_empty (td_website tokenData),
             attributes = or_empty (td_attributes tokenData),
             files = [\<lparr>uri = '''', declaredType = ''image/png''\<rparr>],
             mdCategory = ''image'', creators = or_empty (td_creators tokenData),
             mdFileSize = None, mdUploadDetails = None\<rparr>;
          metadataPath = temp_metadata_path;
          w1 = writeFileSync metadataPath (metadata_file_stat json_size metadata) w
      in case fastUpload (td_logoPath tokenData)
                [(''Asset-Type'', ''token-logo''), (''Token-Symbol'', td_symbol tokenData),
                 (''Token-Name'', td_name tokenData)] construct_error remote1 w1 of
           (Inl e, w2) \<Rightarrow> (Inl e, w2)
         | (Inr logoResult, w2) \<Rightarrow>
             (let metadata' = metadata
                    \<lparr>image := frPublicURL logoResult,
                     files := [\<lparr>uri = frPublicURL logoResult, declaredType = ''image/png''\<rparr>]\<rparr>;
                  w3 = writeFileSync metadataPath (metadata_file_stat json_size metadata') w2
              in case fastUpload metadataPath
                        [(''Asset-Type'', ''token-metadata''),
                         (''Token-Symbol'', td_symbol tokenData),
                         (''Token-Name'', td_name tokenData)] construct_error remote2 w3 of
                   (Inl e, w4) \<Rightarrow> (Inl e, w4)
                 | (Inr metadataResult, w4) \<Rightarrow>
                     (Inr \<lparr>logoURL = frPublicURL logoResult,
                           metadataURL = frPublicURL metadataResult,
                           logoTxId = frTransactionId logoResult,
                           metadataTxId = frTransactionId metadataResult,
                           totalTime = frUploadTime logoResult + frUploadTime metadataResult\<rparr>,
                      unlinkSync metadataPath w4)))"

subsection \<open>\<^verbatim>\<open>uploadFile\<close> and \<^verbatim>\<open>createTokenAssets\<close> (src/unnamed/part\_004)\<close>

text \<open>
  Here the upload is raced against a timer of \<^verbatim>\<open>UPLOAD_TIMEOUT\<close> milliseconds: the remote call
  answers with a receipt, fails, or has not answered when the timer fires.
\<close>

datatype remote_outcome = Receipt string | RemoteFails string | NoAnswer

record remote_call =
  outcome :: remote_outcome
  elapsed :: int

record sized_upload_result = upload_data +
  surCategory :: string

text \<open>
  \<^verbatim>\<open>(n / 1024 / 1024).toFixed(1) + 'MB'\<close> for a byte count \<open>n\<close>: the quotient is exact in
  floating point, and \<^verbatim>\<open>toFixed\<close> rounds it to tenths, a tie upwards.
\<close>

definition megabytes_fixed1 :: "int \<Rightarrow> string" where
  "megabytes_fixed1 n =
     (let tenths = (n * 20 + 1048576) div 2097152
      in decimal (tenths div 10) @ ''.'' @ decimal (tenths mod 10) @ ''MB'')"

definition uploadFile_sized ::
  "size_config \<Rightarrow> string \<Rightarrow> tag list \<Rightarrow> string option \<Rightarrow> remote_call \<Rightarrow> int \<Rightarrow> world \<Rightarrow>
     (upload_error + sized_upload_result) \<times> world" where
  "uploadFile_sized cfg filePath customTags construct_error remote now w =
     (case validateAndDetectFile cfg (wfiles w) filePath of
        Inl e \<Rightarrow> (Inl e, w)
      | Inr fileInfo \<Rightarrow>
          (case getCachedUploader construct_error w of
             (Inl e, w1) \<Rightarrow> (Inl e, w1)
           | (Inr u, w1) \<Rightarrow>
               (case wfiles w1 filePath of
                  None \<Rightarrow> (Inl (FileNotFound filePath), w1)
                | Some st \<Rightarrow>
                    (let name = basename filePath;
                         tags = [(''Content-Type'', mime (infoType fileInfo)),
                                 (''File-Name'', name),
                                 (''File-Size'', decimal (infoSize fileInfo)),
                                 (''File-Category'', infoCategory fileInfo),
                                 (''Max-Size-Policy'', megabytes_fixed1 (maxAllowed fileInfo)),
                                 (''Upload-Time'', toISOString now)] @ customTags
                     in case outcome remote of
                          NoAnswer \<Rightarrow> (Inl UploadTimeout, w1)
                        | RemoteFails msg \<Rightarrow> (Inl (RemoteUploadError msg), w1)
                        | Receipt rid \<Rightarrow>
                            (Inr \<lparr>transactionId = rid, fileName = name,
                                  fileSize = infoSize fileInfo,
                                  contentType = ftype (infoType fileInfo),
                                  publicURL = gateway @ rid, uploadTime = elapsed remote,
                                  surCategory = infoCategory fileInfo\<rparr>,
                             w1\<lparr>remote_log := remote_log w1 @ [(body st, tags)]\<rparr>)))))"

record created_assets =
  caLogoURL :: string
  caMetadataURL :: string
  caLogoTxId :: string
  caMetadataTxId :: string
  caLogoType :: string
  caLogoSize :: int
  caCategory :: string
  caMaxSizeAllowed :: int
  caTotalTime :: int

text \<open>
  \<^verbatim>\<open>createTokenAssets\<close> catches every error and returns \<^verbatim>\<open>{ success: false, error, ... }\<close>: the
  left summand. The metadata file is named after the clock, read when it is written; the
  clock readings of one call are taken as the one instant \<open>now\<close>.
\<close>

definition createTokenAssets_sized ::
  "size_config \<Rightarrow> (token_metadata \<Rightarrow> int) \<Rightarrow> token_data \<Rightarrow> string option \<Rightarrow>
     remote_call \<Rightarrow> remote_call \<Rightarrow> int \<Rightarrow> world \<Rightarrow>
     (upload_error + created_assets) \<times> world" where
  "createTokenAssets_sized cfg json_size tokenData construct_error remote1 remote2 now w =
     (case validateAndDetectFile cfg (wfiles w) (td_logoPath tokenData) of
        Inl e \<Rightarrow> (Inl e, w)
      | Inr logoInfo \<Rightarrow>
          (let metadata =
                 \<lparr>mdName = td_name tokenData, mdSymbol = td_symbol tokenData,
                  mdDescription = td_description tokenData, image = '''',
                  external_url = or_empty (td_website tokenData),
                  attributes = or_empty (td_attributes tokenData),
                  files = [\<lparr>uri = '''', declaredType = ftype (infoType logoInfo)\<rparr>],
                  mdCategory = infoCategory logoInfo,
                  creators = or_empty (td_creators tokenData),
                  mdFileSize = Some (infoSize logoInfo), mdUploadDetails = None\<rparr>
           in case uploadFile_sized cfg (td_logoPath tokenData)
                     [(''Asset-Type'', ''token-logo''), (''Token-Symbol'', td_symbol tokenData),
                      (''Token-Name'', td_name tokenData), (''Size-Validated'', ''true'')]
                     construct_error remote1 now w of
                (Inl e, w1) \<Rightarrow> (Inl e, w1)
              | (Inr logoResult, w1) \<Rightarrow>
                  (let metadata' = metadata
                         \<lparr>image := publicURL logoResult,
                          files := [\<lparr>uri = publicURL logoResult,
                                     declaredType = ftype (infoType logoInfo)\<rparr>]\<rparr>;
                       metadataPath = ''./temp_metadata_'' @ decimal now @ ''.json'';
                       w2 = writeFileSync metadataPath (metadata_file_stat json_size metadata') w1
                   in case uploadFile_sized cfg metadataPath
                             [(''Asset-Type'', ''token-metadata''),
                              (''Token-Symbol'', td_symbol tokenData),
                              (''Logo-Size'', decimal (infoSize logoInfo))]
                             construct_error remote2 now w2 of
                        (Inl e, w3) \<Rightarrow> (Inl e, w3)
                      | (Inr metadataResult, w3) \<Rightarrow>
                          (Inr \<lparr>caLogoURL = publicURL logoResult,
                                caMetadataURL = publicURL metadataResult,
                                caLogoTxId = transactionId logoResult,
                                caMetadataTxId = transactionId metadataResult,
                                caLogoType = ftype (infoType logoInfo),
                                caLogoSize = infoSize logoInfo,
                                caCategory = infoCategory logoInfo,
                                caMaxSizeAllowed = maxAllowed logoInfo,
                                caTotalTime = elapsed remote1 + elapsed remote2\<rparr>,
                           unlinkSync metadataPath w3))))"

subsection \<open>Sample inputs\<close>

definition sample_token :: "string \<Rightarrow> token_data" where
  "sample_token logo =
     \<lparr>td_name = ''My Awesome Token'', td_symbol = ''MAT'',
      td_description = ''The most awesome token on Solana'', td_logoPath = logo,
      td_website = Some ''https://myawesometoken.com'', td_attributes = None,
      td_creators = None\<rparr>"

definition world_with :: "string \<Rightarrow> int \<Rightarrow> world" where
  "world_with p n = \<lparr>wfiles = one_file p n, cachedUploader = False, remote_log = []\<rparr>"

definition empty_world :: world where
  "empty_world = \<lparr>wfiles = Map.empty, cachedUploader = False, remote_log = []\<rparr>"

definition flat_json_size :: "token_metadata \<Rightarrow> int" where
  "flat_json_size md = 400"

section \<open>The multi-user service (first file of src/unnamed/part\_001)\<close>

text \<open>
  \<^verbatim>\<open>CONFIG.USE_SQLITE\<close> is \<^verbatim>\<open>process.env.USE_SQLITE === 'true' || true\<close>, which is always true: the
  user manager of this service is the SQLite \<^verbatim>\<open>UserManager\<close>. The rate limit is checked with
  the defaults of \<^verbatim>\<open>checkRateLimit\<close>, a window of 60000 ms and 60 requests.

  Every error thrown inside the \<^verbatim>\<open>try\<close> block of \<^verbatim>\<open>uploadFileWithUserTracking\<close> is caught by a
  handler that evaluates \<^verbatim>\<open>CONFIG.USE_SQLITE && uploadSessionId\<close>. The variable is declared with
  \<^verbatim>\<open>let\<close> inside the \<^verbatim>\<open>try\<close> block and is not in scope in the handler, so the handler itself
  throws a \<^verbatim>\<open>ReferenceError\<close>, which is what the caller receives; the tracked upload is never
  marked as failed.
\<close>

record multi_file_type =
  mfMime :: string
  mfCategory :: string

definition FILE_TYPES_multi :: "string \<rightharpoonup> multi_file_type" where
  "FILE_TYPES_multi = map_of
     [(''.jpg'', \<lparr>mfMime = ''image/jpeg'', mfCategory = ''image''\<rparr>),
      (''.jpeg'', \<lparr>mfMime = ''image/jpeg'', mfCategory = ''image''\<rparr>),
      (''.png'', \<lparr>mfMime = ''image/png'', mfCategory = ''image''\<rparr>),
      (''.gif'', \<lparr>mfMime = ''image/gif'', mfCategory = ''image''\<rparr>),
      (''.webp'', \<lparr>mfMime = ''image/webp'', mfCategory = ''image''\<rparr>),
      (''.mp4'', \<lparr>mfMime = ''video/mp4'', mfCategory = ''video''\<rparr>),
      (''.mp3'', \<lparr>mfMime = ''audio/mpeg'', mfCategory = ''audio''\<rparr>),
      (''.json'', \<lparr>mfMime = ''application/json'', mfCategory = ''document''\<rparr>)]"

record multi_state =
  msDb :: user_db
  msPool :: connection_pool
  msFiles :: filesystem
  msLog :: "(file_body \<times> tag list) list"

text \<open>
  A call of a service returns, throws, or is still waiting: for a pooled connection that
  another request holds, or for a promise that is never settled. Each upload is given the
  identity under which it queues at the pool, the outcome of constructing a connection
  should the pool construct one, and the answer of the network.
\<close>

datatype 'a call = Returns 'a | Throws upload_error | StillWaiting

record acquisition =
  acquirerId :: acquirer
  construction :: "string + connection"
  remote :: remote_call

record tracked_result = upload_data +
  trUserId :: string
  trSessionId :: string
  trRateLimitRemaining :: int

definition caught_in_handler :: upload_error where
  "caught_in_handler = ReferenceError ''uploadSessionId is not defined''"

definition uploadFileWithUserTracking ::
  "int \<Rightarrow> string \<Rightarrow> tag list \<Rightarrow> string \<Rightarrow> string \<Rightarrow> string \<Rightarrow> acquisition \<Rightarrow> int \<Rightarrow>
     multi_state \<Rightarrow> tracked_result call \<times> multi_state" where
  "uploadFileWithUserTracking maxUploadSize filePath customTags uid ip sessionId acq now st =
     (let db1 = snd (UserManager_createOrGetUser uid None now (msDb st))
      in case UserManager_checkRateLimit uid ip 60000 60 now db1 of
           (Rejected err, db2) \<Rightarrow> (Throws caught_in_handler, st\<lparr>msDb := db2\<rparr>)
         | (CallbackThrew err, db2) \<Rightarrow> (StillWaiting, st\<lparr>msDb := db2\<rparr>)
         | (Resolved rateCheck, db2) \<Rightarrow>
             if \<not> allowed rateCheck then (Throws caught_in_handler, st\<lparr>msDb := db2\<rparr>)
             else
               (case msFiles st filePath of
                  None \<Rightarrow> (Throws caught_in_handler, st\<lparr>msDb := db2\<rparr>)
                | Some fstat \<Rightarrow>
                    (case FILE_TYPES_multi (toLowerCase (extname filePath)) of
                       None \<Rightarrow> (Throws caught_in_handler, st\<lparr>msDb := db2\<rparr>)
                     | Some fileType \<Rightarrow>
                         if fsize fstat > maxUploadSize
                         then (Throws caught_in_handler, st\<lparr>msDb := db2\<rparr>)
                         else
                           (let started = UserManager_startUpload uid sessionId
                                            (basename filePath) now db2;
                                uploadSessionId = fst started;
                                db3 = snd started
                            in case ConnectionPool_getConnection (acquirerId acq)
                                      (construction acq) (msPool st) of
                                 (ConstructionFailed err, p) \<Rightarrow>
                                   (Throws caught_in_handler, st\<lparr>msDb := db3, msPool := p\<rparr>)
                               | (Suspended, p) \<Rightarrow>
                                   (StillWaiting, st\<lparr>msDb := db3, msPool := p\<rparr>)
                               | (Acquired uploader, p) \<Rightarrow>
                                   (let p' = snd (ConnectionPool_releaseConnection uploader p);
                                        tags = [(''Content-Type'', mfMime fileType),
                                                (''File-Name'', basename filePath),
                                                (''File-Size'', decimal (fsize fstat)),
                                                (''User-ID'', uid),
                                                (''Session-ID'', sessionId),
                                                (''Upload-Time'', decimal now)] @ customTags
                                    in case outcome (remote acq) of
                                         NoAnswer \<Rightarrow>
                                           (Throws caught_in_handler,
                                            st\<lparr>msDb := db3, msPool := p'\<rparr>)
                                       | RemoteFails msg \<Rightarrow>
                                           (Throws caught_in_handler,
                                            st\<lparr>msDb := db3, msPool := p'\<rparr>)
                                       | Receipt rid \<Rightarrow>
                                           (let uploadData =
                                                  \<lparr>transactionId = rid,
                                                   fileName = basename filePath,
                                                   fileSize = fsize fstat,
                                                   contentType = mfMime fileType,
                                                   publicURL = gateway @ rid,
                                                   uploadTime = elapsed (remote acq)\<rparr>;
                                                db4 = snd (UserManager_recordUpload uid
                                                             uploadData now db3);
                                                db5 = UserManager_completeUpload uploadSessionId
                                                        ''completed'' db4
                                            in (Returns
                                                  \<lparr>transactionId = rid,
                                                   fileName = basename filePath,
                                                   fileSize = fsize fstat,
                                                   contentType = mfMime fileType,
                                                   publicURL = gateway @ rid,
                                                   uploadTime = elapsed (remote acq),
                                                   trUserId = uid, trSessionId = sessionId,
                                                   trRateLimitRemaining =
                                                     remaining rateCheck - 1\<rparr>,
                                                st\<lparr>msDb := db5, msPool := p',
                                                   msLog := msLog st @
                                                     [(body fstat, tags)]\<rparr>)))))))"

record multi_token_result =
  mtLogoURL :: string
  mtMetadataURL :: string
  mtLogoTxId :: string
  mtMetadataTxId :: string
  mtLogoType :: string
  mtUserId :: string
  mtSessionId :: string

definition remove_if_exists :: "string \<Rightarrow> multi_state \<Rightarrow> multi_state" where
  "remove_if_exists p st =
     (if msFiles st p \<noteq> None then st\<lparr>msFiles := (msFiles st)(p := None)\<rparr> else st)"

text \<open>
  \<^verbatim>\<open>createTokenAssetsMultiUser\<close>. \<^verbatim>\<open>path.join('./temp', name)\<close> is \<^verbatim>\<open>temp/name\<close>. The two uploads
  draw their session identifiers from \<^verbatim>\<open>crypto.randomUUID()\<close>: \<open>uuid1\<close> and \<open>uuid2\<close>.
\<close>

definition createTokenAssetsMultiUser ::
  "int \<Rightarrow> (token_metadata \<Rightarrow> int) \<Rightarrow> token_data \<Rightarrow> string \<Rightarrow> string \<Rightarrow> string \<Rightarrow> string \<Rightarrow>
     acquisition \<Rightarrow> acquisition \<Rightarrow> int \<Rightarrow> multi_state \<Rightarrow> multi_token_result call \<times> multi_state" where
  "createTokenAssetsMultiUser maxUploadSize json_size tokenData uid ip uuid1 uuid2 acq1 acq2 now st =
     (let sessionId = ''token_'' @ uid @ ''_'' @ decimal now
      in case uploadFileWithUserTracking maxUploadSize (td_logoPath tokenData)
                [(''Asset-Type'', ''token-logo''), (''Token-Symbol'', td_symbol tokenData),
                 (''Token-Name'', td_name tokenData)] uid ip uuid1 acq1 now st of
           (Throws e, st1) \<Rightarrow> (Throws e, st1)
         | (StillWaiting, st1) \<Rightarrow> (StillWaiting, st1)
         | (Returns logoResult, st1) \<Rightarrow>
             (case FILE_TYPES_multi (toLowerCase (extname (td_logoPath tokenData))) of
                None \<Rightarrow> (Throws (TypeError ''logoInfo is undefined''), st1)
              | Some logoInfo \<Rightarrow>
                  (let metadata =
                         \<lparr>mdName = td_name tokenData, mdSymbol = td_symbol tokenData,
                          mdDescription = td_description tokenData,
                          image = publicURL logoResult,
                          external_url = or_empty (td_website tokenData),
                          attributes = or_empty (td_attributes tokenData),
                          files = [\<lparr>uri = publicURL logoResult,
                                     declaredType = mfMime logoInfo\<rparr>],
                          mdCategory = mfCategory logoInfo,
                          creators = or_empty (td_creators tokenData),
                          mdFileSize = None, mdUploadDetails = None\<rparr>;
                       metadataPath = ''temp/metadata_'' @ uid @ ''_'' @ decimal now @ ''.json'';
                       st2 = st1\<lparr>msFiles := (msFiles st1)(metadataPath \<mapsto>
                                  metadata_file_stat json_size metadata)\<rparr>
                   in case uploadFileWithUserTracking maxUploadSize metadataPath
                             [(''Asset-Type'', ''token-metadata''),
                              (''Token-Symbol'', td_symbol tokenData),
                              (''Token-Name'', td_name tokenData)] uid ip uuid2 acq2 now st2 of
                        (Throws e, st3) \<Rightarrow> (Throws e, remove_if_exists metadataPath st3)
                      | (StillWaiting, st3) \<Rightarrow> (StillWaiting, st3)
                      | (Returns metadataResult, st3) \<Rightarrow>
                          (Returns
                             \<lparr>mtLogoURL = publicURL logoResult,
                              mtMetadataURL = publicURL metadataResult,
                              mtLogoTxId = transactionId logoResult,
                              mtMetadataTxId = transactionId metadataResult,
                              mtLogoType = mfMime logoInfo, mtUserId = uid,
                              mtSessionId = sessionId\<rparr>,
                           remove_if_exists metadataPath st3))))"

definition logo_succeeds :: acquisition where
  "logo_succeeds =
     \<lparr>acquirerId = 1, construction = Inr 1, remote = \<lparr>outcome = Receipt ''L1'', elapsed = 40\<rparr>\<rparr>"

definition metadata_fails :: acquisition where
  "metadata_fails =
     \<lparr>acquirerId = 2, construction = Inr 2,
      remote = \<lparr>outcome = RemoteFails ''502 Bad Gateway'', elapsed = 30\<rparr>\<rparr>"

definition sample_multi_state :: multi_state where
  "sample_multi_state =
     \<lparr>msDb = user_db_empty, msPool = ConnectionPool_new 10,
      msFiles = one_file ''temp/logo.png'' 1000, msLog = []\<rparr>"

section \<open>The production service (\<^verbatim>\<open>IrysUploadService\<close>, src/src/multi-user-api.js)\<close>

text \<open>
  The service owns a \<^verbatim>\<open>ProductionDatabase\<close> and an \<^verbatim>\<open>UltraFastConnectionPool\<close>; with the file
  system and the log of what the network has accepted, they are the state of the model. A
  call of the service returns, throws, or is still waiting: for a pooled connection that
  another request holds, or for a promise that is never settled.
\<close>

record service_config =
  cfgMaxUploadSize :: int
  cfgRateLimitWindow :: int
  cfgRateLimitPerMinute :: int
  cfgTempDir :: string

record service_state =
  ledger :: prod_db
  connections :: ultra_pool
  sfiles :: filesystem
  network_log :: "(file_body \<times> tag list) list"

definition IrysUploadService_uploadFile ::
  "service_config \<Rightarrow> string \<Rightarrow> string \<Rightarrow> tag list \<Rightarrow> string option \<Rightarrow> string \<Rightarrow>
     acquisition \<Rightarrow> int \<Rightarrow> service_state \<Rightarrow> upload_result call \<times> service_state" where
  "IrysUploadService_uploadFile cfg filePath wallet customTags sessionId uuid acq now st =
     (case validateFile (cfgMaxUploadSize cfg) (sfiles st) filePath of
        Inl e \<Rightarrow> (Throws e, st)
      | Inr fileInfo \<Rightarrow>
          (case UltraFastConnectionPool_getConnection (acquirerId acq) (construction acq)
                  (connections st) of
             (ConstructionFailed err, p) \<Rightarrow> (Throws (ConnectionError err), st\<lparr>connections := p\<rparr>)
           | (Suspended, p) \<Rightarrow> (StillWaiting, st\<lparr>connections := p\<rparr>)
           | (Acquired conn, p) \<Rightarrow>
               (let released =
                      st\<lparr>connections := snd (UltraFastConnectionPool_releaseConnection conn p)\<rparr>
                in case sfiles st filePath of
                     None \<Rightarrow> (Throws (FileNotFound filePath), released)
                   | Some f \<Rightarrow>
                       (let tags = [(''Content-Type'', stMime (vType fileInfo)),
                                    (''File-Name'', vFileName fileInfo),
                                    (''File-Size'', decimal (vSize fileInfo)),
                                    (''Category'', stCategory (vType fileInfo)),
                                    (''Wallet-Address'', wallet),
                                    (''Upload-Time'', decimal now)] @ customTags
                        in case outcome (remote acq) of
                             NoAnswer \<Rightarrow> (Throws UploadTimeout, released)
                           | RemoteFails msg \<Rightarrow> (Throws (RemoteUploadError msg), released)
                           | Receipt rid \<Rightarrow>
                               (Returns
                                  \<lparr>transactionId = rid, fileName = vFileName fileInfo,
                                   fileSize = vSize fileInfo,
                                   contentType = stMime (vType fileInfo),
                                   publicURL = gateway @ rid,
                                   uploadTime = elapsed (remote acq),
                                   urCategory = stCategory (vType fileInfo),
                                   urSessionId =
                                     (case sessionId of
                                        None \<Rightarrow> uuid
                                      | Some sid \<Rightarrow> if sid = '''' then uuid else sid)\<rparr>,
                                released\<lparr>network_log := network_log released @
                                            [(body f, tags)]\<rparr>)))))"

record created_token =
  ctLogoURL :: string
  ctMetadataURL :: string
  ctLogoTxId :: string
  ctMetadataTxId :: string
  ctLogoType :: string
  ctCategory :: string
  ctMetadata :: token_metadata
  ctWalletAddress :: string
  ctSessionId :: string

text \<open>
  The last stage of \<^verbatim>\<open>createTokenAssets\<close> is
  \<^verbatim>\<open>await Promise.all([recordUpload(logo), recordUpload(metadata), recordTokenAsset(...)])\<close>:
  three writes handed to the driver together. In which order the driver runs them, and what
  their callbacks do, is not decided by the code of \<^verbatim>\<open>createTokenAssets\<close>; the stage is a
  parameter of the model, \<open>recordAll\<close>, from the ledger to the settled outcome and the new
  ledger.
\<close>

type_synonym recording =
  "string \<Rightarrow> token_asset_data \<Rightarrow> upload_result \<Rightarrow> upload_result \<Rightarrow> string \<Rightarrow> int \<Rightarrow> prod_db \<Rightarrow>
     unit settled \<times> prod_db"

definition cleanup_metadata :: "string \<Rightarrow> service_state \<Rightarrow> service_state" where
  "cleanup_metadata metadataPath st =
     (if sfiles st metadataPath \<noteq> None then st\<lparr>sfiles := (sfiles st)(metadataPath := None)\<rparr>
      else st)"

definition IrysUploadService_createTokenAssets ::
  "service_config \<Rightarrow> (token_metadata \<Rightarrow> int) \<Rightarrow> recording \<Rightarrow> token_data \<Rightarrow> string \<Rightarrow> string \<Rightarrow>
     acquisition \<Rightarrow> acquisition \<Rightarrow> int \<Rightarrow> service_state \<Rightarrow> created_token call \<times> service_state" where
  "IrysUploadService_createTokenAssets cfg json_size recordAll tokenData wallet ip acq1 acq2 now st =
     (let sessionId = ''token_'' @ take 8 wallet @ ''_'' @ decimal now
      in case ProductionDatabase_checkRateLimit (cfgRateLimitWindow cfg) (cfgRateLimitPerMinute cfg)
                wallet ip now (ledger st) of
           (Rejected err, db1) \<Rightarrow> (Throws (LedgerError err), st\<lparr>ledger := db1\<rparr>)
         | (CallbackThrew err, db1) \<Rightarrow> (StillWaiting, st\<lparr>ledger := db1\<rparr>)
         | (Resolved rateCheck, db1) \<Rightarrow>
             if \<not> allowed rateCheck
             then (Throws (RateLimitExceeded (resetTime rateCheck)), st\<lparr>ledger := db1\<rparr>)
             else
               (let st2 = st\<lparr>ledger := snd (ProductionDatabase_createOrUpdateUser wallet now db1)\<rparr>
                in case validateFile (cfgMaxUploadSize cfg) (sfiles st2) (td_logoPath tokenData) of
                     Inl e \<Rightarrow> (Throws e, st2)
                   | Inr logoInfo \<Rightarrow>
                       (case IrysUploadService_uploadFile cfg (td_logoPath tokenData) wallet
                               [(''Asset-Type'', ''token-logo''),
                                (''Token-Symbol'', td_symbol tokenData),
                                (''Token-Name'', td_name tokenData)]
                               (Some sessionId) '''' acq1 now st2 of
                          (Throws e, st3) \<Rightarrow> (Throws e, st3)
                        | (StillWaiting, st3) \<Rightarrow> (StillWaiting, st3)
                        | (Returns logoResult, st3) \<Rightarrow>
                            (let metadata =
                                   \<lparr>mdName = td_name tokenData, mdSymbol = td_symbol tokenData,
                                    mdDescription = td_description tokenData,
                                    image = publicURL logoResult,
                                    external_url = or_empty (td_website tokenData),
                                    attributes = or_empty (td_attributes tokenData),
                                    files = [\<lparr>uri = publicURL logoResult,
                                               declaredType = stMime (vType logoInfo)\<rparr>],
                                    mdCategory = stCategory (vType logoInfo),
                                    creators = or_empty (td_creators tokenData),
                                    mdFileSize = None,
                                    mdUploadDetails = Some
                                      \<lparr>ud_wallet_address = wallet, ud_session_id = sessionId,
                                       ud_logo_transaction_id = transactionId logoResult,
                                       ud_created_at = now, ud_file_size = vSize logoInfo,
                                       ud_content_type = stMime (vType logoInfo)\<rparr>\<rparr>;
                                 metadataPath =
                                   cfgTempDir cfg @ ''/metadata_'' @ sessionId @ ''.json'';
                                 st4 = st3\<lparr>sfiles := (sfiles st3)(metadataPath \<mapsto>
                                              metadata_file_stat json_size metadata)\<rparr>
                             in case IrysUploadService_uploadFile cfg metadataPath wallet
                                       [(''Asset-Type'', ''token-metadata''),
                                        (''Token-Symbol'', td_symbol tokenData),
                                        (''Token-Name'', td_name tokenData),
                                        (''Logo-Type'', stMime (vType logoInfo))]
                                       (Some sessionId) '''' acq2 now st4 of
                                  (Throws e, st5) \<Rightarrow> (Throws e, cleanup_metadata metadataPath st5)
                                | (StillWaiting, st5) \<Rightarrow> (StillWaiting, st5)
                                | (Returns metadataResult, st5) \<Rightarrow>
                                    (case recordAll wallet
                                            \<lparr>tad_name = td_name tokenData,
                                             tad_symbol = td_symbol tokenData,
                                             tad_metadata = metadata\<rparr>
                                            logoResult metadataResult sessionId now (ledger st5) of
                                       (Rejected err, db') \<Rightarrow>
                                         (Throws (LedgerError err),
                                          cleanup_metadata metadataPath (st5\<lparr>ledger := db'\<rparr>))
                                     | (CallbackThrew err, db') \<Rightarrow>
                                         (StillWaiting, st5\<lparr>ledger := db'\<rparr>)
                                     | (Resolved u, db') \<Rightarrow>
                                         (Returns
                                            \<lparr>ctLogoURL = publicURL logoResult,
                                             ctMetadataURL = publicURL metadataResult,
                                             ctLogoTxId = transactionId logoResult,
                                             ctMetadataTxId = transactionId metadataResult,
                                             ctLogoType = stMime (vType logoInfo),
                                             ctCategory = stCategory (vType logoInfo),
                                             ctMetadata = metadata, ctWalletAddress = wallet,
                                             ctSessionId = sessionId\<rparr>,
                                          cleanup_metadata metadataPath
                                            (st5\<lparr>ledger := db'\<rparr>)))))))"

subsection \<open>Sample inputs\<close>

definition sample_service_config :: service_config where
  "sample_service_config =
     \<lparr>cfgMaxUploadSize = 2097152, cfgRateLimitWindow = 60000, cfgRateLimitPerMinute = 100,
      cfgTempDir = ''/srv/temp''\<rparr>"

definition sample_service_state :: service_state where
  "sample_service_state =
     \<lparr>ledger = prod_db_empty, connections = UltraFastConnectionPool_new 10,
      sfiles = one_file ''/srv/temp/logo.png'' 1000, network_log = []\<rparr>"

section \<open>Proofs: the JSON ledger\<close>

subsection \<open>Arithmetic within the safe integers\<close>

lemma shift_small: "a < 9007199254740992 \<Longrightarrow> significand_shift a = 0"
  by (subst significand_shift.simps) simp

lemma shift_edge: "significand_shift 9007199254740992 = 1"
  by (simp add: significand_shift.simps)

lemma round_exact: "\<bar>n\<bar> \<le> 9007199254740992 \<Longrightarrow> round_to_double n = n"
proof (cases "\<bar>n\<bar> < 9007199254740992")
  case True
  then show ?thesis by (simp add: round_to_double_def shift_small Let_def)
next
  case False
  assume "\<bar>n\<bar> \<le> 9007199254740992"
  then have a: "\<bar>n\<bar> = 9007199254740992" using False by simp
  then have "n = 9007199254740992 \<or> n = - 9007199254740992" by arith
  then show ?thesis using a by (auto simp: round_to_double_def shift_edge Let_def)
qed

lemma js_plus_exact: "\<bar>x + y\<bar> \<le> 9007199254740992 \<Longrightarrow> js_plus x y = x + y"
  by (simp add: js_plus_def round_exact)

subsection \<open>The statistics and the stored records\<close>

lemma sum_insort: "sum_list (map f (insort_key k x xs)) = (f x :: int) + sum_list (map f xs)"
  by (induction xs) auto
lemma sum_sort_key: "sum_list (map f (sort_key k xs)) = sum_list (map (f::'a \<Rightarrow> int) xs)"
  by (induction xs) (auto simp: sum_insort)

lemma prototype_grows:
  "Object_prototype (Some t) u = None \<Longrightarrow> Object_prototype a u = None"
  by (simp add: Object_prototype_def split: if_splits)

lemma prototype_stays:
  "Object_prototype a u \<noteq> None \<Longrightarrow> Object_prototype (Some t) u \<noteq> None"
  by (simp add: Object_prototype_def split: if_splits)

lemma property_Own: "store u = Some v \<Longrightarrow> property_of a store u = Own v"
  by (simp add: property_of_def)
lemma property_Inherited:
  "store u = None \<Longrightarrow> Object_prototype a u = Some v \<Longrightarrow> property_of a store u = Inherited v"
  by (simp add: property_of_def)
lemma property_Undefined:
  "store u = None \<Longrightarrow> Object_prototype a u = None \<Longrightarrow> property_of a store u = Undefined"
  by (simp add: property_of_def)

lemma consistentD1: "consistent s \<Longrightarrow> stats_match s u"
  unfolding consistent_def by blast
lemma consistentD2:
  "consistent s \<Longrightarrow> users s u = None \<Longrightarrow>
   Object_prototype (prototypeLastActivity s) u = None \<Longrightarrow> uploads_of s u = []"
  unfolding consistent_def by blast

lemma stats_match_Some: "users s u = Some usr \<Longrightarrow>
    stats_match s u = (totalUploads usr = int (length (uploads_of s u)) \<and>
          totalSizeBytes usr = sum_list (map fileSize (uploads_of s u)))"
  by (simp add: stats_match_def)

text \<open>Changes that keep the users store and the stored upload records.\<close>

lemma consistent_frame:
  assumes "consistent s" and "users s' = users s" and "\<And>u. uploads_of s' u = uploads_of s u"
    and "prototypeLastActivity s' = prototypeLastActivity s \<or>
         (\<exists>t. prototypeLastActivity s' = Some t)"
  shows "consistent s'"
  unfolding consistent_def
proof (intro allI conjI impI)
  fix u
  show "stats_match s' u"
    using consistentD1 [OF assms(1), of u] assms(2,3)
    by (simp add: stats_match_def split: option.splits)
  assume a: "users s' u = None \<and> Object_prototype (prototypeLastActivity s') u = None"
  then have "Object_prototype (prototypeLastActivity s) u = None"
    using assms(4) prototype_grows by auto
  then show "uploads_of s' u = []"
    using a assms(2,3) consistentD2 [OF assms(1), of u] by simp
qed

lemma consistent_users_update:
  assumes "consistent s"
    and "totalUploads usr = int (length (uploads_of s uid))"
    and "totalSizeBytes usr = sum_list (map fileSize (uploads_of s uid))"
  shows "consistent (s\<lparr>users := (users s)(uid \<mapsto> usr)\<rparr>)"
  using assms by (auto simp: consistent_def stats_match_def uploads_of_def split: option.splits)

lemma consistent_push_update:
  assumes "consistent s" and "users s uid = Some usr"
  shows "consistent (s\<lparr>uploads := (uploads s)(uid \<mapsto> uploads_of s uid @ [r]),
            users := (users s)(uid \<mapsto>
              usr\<lparr>totalUploads := totalUploads usr + 1,
                  totalSizeBytes := totalSizeBytes usr + fileSize r, lastActivity := now\<rparr>)\<rparr>)"
  using assms by (auto simp: consistent_def stats_match_def uploads_of_def split: option.splits)

lemma consistent_push_inherited:
  assumes "consistent s" and "users s' = users s" and "uploads s' = (uploads s)(uid \<mapsto> l)"
    and "users s uid = None" and "Object_prototype (prototypeLastActivity s) uid \<noteq> None"
    and "prototypeLastActivity s' = prototypeLastActivity s \<or>
         (\<exists>t. prototypeLastActivity s' = Some t)"
  shows "consistent s'"
  unfolding consistent_def
proof (intro allI conjI impI)
  fix u
  show "stats_match s' u"
    using consistentD1 [OF assms(1), of u] assms(2,3,4)
    by (cases "u = uid") (simp_all add: stats_match_def uploads_of_def split: option.splits)
  assume a: "users s' u = None \<and> Object_prototype (prototypeLastActivity s') u = None"
  then have p: "Object_prototype (prototypeLastActivity s) u = None"
    using assms(6) prototype_grows by auto
  then have "u \<noteq> uid" using assms(5) by auto
  then show "uploads_of s' u = []"
    using a p assms(2,3) consistentD2 [OF assms(1), of u] by (simp add: uploads_of_def)
qed

subsection \<open>createOrGetUser\<close>

lemma create_new:
  "users s uid = None \<Longrightarrow> Object_prototype (prototypeLastActivity s) uid = None \<Longrightarrow>
   JSONUserManager_createOrGetUser uid em now s =
     (Inr (Own \<lparr>userId = uid, email = em, createdAt = now, lastActivity = now,
                 totalUploads = 0, totalSizeBytes = 0, status = ''active''\<rparr>),
      s\<lparr>users := (users s)(uid \<mapsto>
           \<lparr>userId = uid, email = em, createdAt = now, lastActivity = now,
            totalUploads = 0, totalSizeBytes = 0, status = ''active''\<rparr>)\<rparr>)"
  by (simp add: JSONUserManager_createOrGetUser_def property_Undefined Let_def)

lemma create_old:
  "users s uid = Some usr \<Longrightarrow>
   JSONUserManager_createOrGetUser uid em now s =
     (Inr (Own (usr\<lparr>lastActivity := now\<rparr>)),
      s\<lparr>users := (users s)(uid \<mapsto> usr\<lparr>lastActivity := now\<rparr>)\<rparr>)"
  by (simp add: JSONUserManager_createOrGetUser_def property_Own Let_def)

lemma create_inherited:
  assumes "users s uid = None" and "Object_prototype (prototypeLastActivity s) uid = Some v"
  shows "users (snd (JSONUserManager_createOrGetUser uid em now s)) = users s \<and>
         uploads (snd (JSONUserManager_createOrGetUser uid em now s)) = uploads s \<and>
         (prototypeLastActivity (snd (JSONUserManager_createOrGetUser uid em now s)) =
            prototypeLastActivity s \<or>
          prototypeLastActivity (snd (JSONUserManager_createOrGetUser uid em now s)) = Some now)"
  by (cases v) (simp_all add: JSONUserManager_createOrGetUser_def
      property_Inherited [where store = "users s", OF assms])

lemma stats_create:
  assumes "consistent s"
  shows "consistent (snd (JSONUserManager_createOrGetUser uid em now s))"
proof (cases "users s uid")
  case (Some usr)
  have "stats_match s uid" using assms by (rule consistentD1)
  then show ?thesis
    using Some assms
    by (simp add: create_old consistent_users_update stats_match_Some [OF Some])
next
  case None
  show ?thesis
  proof (cases "Object_prototype (prototypeLastActivity s) uid")
    case n: None
    then have "uploads_of s uid = []" using assms None by (simp add: consistentD2)
    then show ?thesis using None n assms by (simp add: create_new consistent_users_update)
  next
    case (Some v)
    show ?thesis
      using create_inherited [OF None Some, of em now]
      by (intro consistent_frame [OF assms]) (auto simp: uploads_of_def)
  qed
qed

lemma create_known:
  "users (snd (JSONUserManager_createOrGetUser uid em now s)) uid \<noteq> None \<or>
   Object_prototype (prototypeLastActivity (snd (JSONUserManager_createOrGetUser uid em now s)))
     uid \<noteq> None"
proof (cases "users s uid")
  case (Some usr)
  then show ?thesis by (simp add: create_old)
next
  case None
  show ?thesis
  proof (cases "Object_prototype (prototypeLastActivity s) uid")
    case n: None
    then show ?thesis using None by (simp add: create_new)
  next
    case (Some v)
    then show ?thesis
      using create_inherited [OF None Some, of em now] prototype_grows [of now uid "prototypeLastActivity s"]
      by auto
  qed
qed

subsection \<open>recordUpload\<close>

lemma record_throws:
  "uploads s uid = None \<Longrightarrow> Object_prototype (prototypeLastActivity s) uid = Some v \<Longrightarrow>
   JSONUserManager_recordUpload uid d uuid now s =
     (Inl (TypeError ''this.uploads[userId].push is not a function''), s)"
  by (simp add: JSONUserManager_recordUpload_def property_Inherited Let_def)

lemma pushed_list:
  "uploads s uid \<noteq> None \<or> Object_prototype (prototypeLastActivity s) uid = None \<Longrightarrow>
   (case property_of (prototypeLastActivity s) (uploads s) uid of Own l \<Rightarrow> l | _ \<Rightarrow> []) =
     uploads_of s uid \<and>
   (\<forall>v. property_of (prototypeLastActivity s) (uploads s) uid \<noteq> Inherited v)"
  by (auto simp: property_of_def uploads_of_def split: option.splits)

lemma record_own:
  assumes "uploads s uid \<noteq> None \<or> Object_prototype (prototypeLastActivity s) uid = None"
    and "users s uid = Some usr"
  shows "JSONUserManager_recordUpload uid d uuid now s =
     (Inr (mk_upload_record d uuid now),
      s\<lparr>uploads := (uploads s)(uid \<mapsto> uploads_of s uid @ [mk_upload_record d uuid now]),
        users := (users s)(uid \<mapsto>
          usr\<lparr>totalUploads := js_plus (totalUploads usr) 1,
              totalSizeBytes := js_plus (totalSizeBytes usr) (fileSize d),
              lastActivity := now\<rparr>)\<rparr>)"
  using pushed_list [OF assms(1)] assms(2)
  by (cases "property_of (prototypeLastActivity s) (uploads s) uid")
     (simp_all add: JSONUserManager_recordUpload_def property_Own Let_def)

lemma record_without_user:
  assumes "users s uid = None" and "Object_prototype (prototypeLastActivity s) uid = None"
  shows "JSONUserManager_recordUpload uid d uuid now s =
     (Inr (mk_upload_record d uuid now),
      s\<lparr>uploads := (uploads s)(uid \<mapsto> uploads_of s uid @ [mk_upload_record d uuid now])\<rparr>)"
  using pushed_list [of s uid] assms
  by (cases "property_of (prototypeLastActivity s) (uploads s) uid")
     (simp_all add: JSONUserManager_recordUpload_def property_Undefined Let_def)

lemma record_inherited:
  assumes "uploads s uid \<noteq> None" and "users s uid = None"
    and "Object_prototype (prototypeLastActivity s) uid = Some v"
  shows "users (snd (JSONUserManager_recordUpload uid d uuid now s)) = users s \<and>
         uploads (snd (JSONUserManager_recordUpload uid d uuid now s)) =
           (uploads s)(uid \<mapsto> uploads_of s uid @ [mk_upload_record d uuid now]) \<and>
         (prototypeLastActivity (snd (JSONUserManager_recordUpload uid d uuid now s)) =
            prototypeLastActivity s \<or>
          prototypeLastActivity (snd (JSONUserManager_recordUpload uid d uuid now s)) = Some now)"
  using pushed_list [of s uid] assms
  by (cases "property_of (prototypeLastActivity s) (uploads s) uid"; cases v)
     (simp_all add: JSONUserManager_recordUpload_def property_Inherited Let_def)

lemma fileSize_mk: "fileSize (mk_upload_record d uuid now) = fileSize d"
  by (simp add: mk_upload_record_def)

lemma stats_record:
  assumes "consistent s"
    and "users s uid \<noteq> None \<or> Object_prototype (prototypeLastActivity s) uid \<noteq> None"
    and "exact_step s (RecordUpload uid d uuid now)"
  shows "consistent (snd (JSONUserManager_recordUpload uid d uuid now s))"
proof (cases "uploads s uid \<noteq> None \<or> Object_prototype (prototypeLastActivity s) uid = None")
  case False
  then show ?thesis using assms(1) by (auto simp: record_throws)
next
  case True
  show ?thesis
  proof (cases "users s uid")
    case (Some usr)
    have "js_plus (totalUploads usr) 1 = totalUploads usr + 1"
      and "js_plus (totalSizeBytes usr) (fileSize d) =
           totalSizeBytes usr + fileSize (mk_upload_record d uuid now)"
      using assms(3) Some by (simp_all add: js_plus_exact fileSize_mk)
    then show ?thesis
      using consistent_push_update [OF assms(1) Some, where r = "mk_upload_record d uuid now"
          and now = now]
      by (simp add: record_own [OF True Some])
  next
    case None
    then obtain v where v: "Object_prototype (prototypeLastActivity s) uid = Some v"
      using assms(2) by auto
    then have own: "uploads s uid \<noteq> None" using True by simp
    show ?thesis
      using record_inherited [OF own None v, of d uuid now] v
      by (intro consistent_push_inherited [OF assms(1), where uid = uid
            and l = "uploads_of s uid @ [mk_upload_record d uuid now]"] None) auto
  qed
qed

subsection \<open>The operations that leave the users store and the upload records\<close>

lemma rate_frame:
  "users (snd (JSONUserManager_checkRateLimit uid ip w m now s)) = users s \<and>
   uploads (snd (JSONUserManager_checkRateLimit uid ip w m now s)) = uploads s \<and>
   prototypeLastActivity (snd (JSONUserManager_checkRateLimit uid ip w m now s)) =
     prototypeLastActivity s"
  by (cases "property_of (prototypeLastActivity s) (rateLimits s) uid")
     (simp_all add: JSONUserManager_checkRateLimit_def Let_def)

lemma cleanup_frame:
  "users (JSONUserManager_cleanup daysOld now s) = users s \<and>
   uploads (JSONUserManager_cleanup daysOld now s) = uploads s \<and>
   prototypeLastActivity (JSONUserManager_cleanup daysOld now s) = prototypeLastActivity s"
  by (simp add: JSONUserManager_cleanup_def Let_def)

lemma stats_rate:
  assumes "consistent s"
  shows "consistent (snd (JSONUserManager_checkRateLimit uid ip w m now s))"
  by (rule consistent_frame [OF assms]) (simp_all add: rate_frame uploads_of_def)

lemma stats_cleanup:
  assumes "consistent s"
  shows "consistent (JSONUserManager_cleanup daysOld now s)"
  by (rule consistent_frame [OF assms]) (simp_all add: cleanup_frame uploads_of_def)

lemma recent_frame:
  "users (snd (JSONUserManager_getRecentUploads uid limit s)) = users s \<and>
   prototypeLastActivity (snd (JSONUserManager_getRecentUploads uid limit s)) =
     prototypeLastActivity s"
  by (cases "property_of (prototypeLastActivity s) (uploads s) uid")
     (simp_all add: JSONUserManager_getRecentUploads_def Let_def)

lemma recent_uploads:
  "uploads_of (snd (JSONUserManager_getRecentUploads uid limit s)) u =
     (if u = uid then sort_key (\<lambda>r. - recCreatedAt r) (uploads_of s u) else uploads_of s u)"
  by (cases "uploads s uid")
     (auto simp: JSONUserManager_getRecentUploads_def Let_def uploads_of_def property_of_def
        split: option.splits)

lemma stats_recent:
  assumes "consistent s"
  shows "consistent (snd (JSONUserManager_getRecentUploads uid limit s))"
  unfolding consistent_def
proof (intro allI conjI impI)
  fix u
  show "stats_match (snd (JSONUserManager_getRecentUploads uid limit s)) u"
    using consistentD1 [OF assms, of u]
    by (cases "u = uid")
       (auto simp: stats_match_def recent_frame recent_uploads sum_sort_key
          split: option.splits)
  assume "users (snd (JSONUserManager_getRecentUploads uid limit s)) u = None \<and>
    Object_prototype (prototypeLastActivity (snd (JSONUserManager_getRecentUploads uid limit s)))
      u = None"
  then have "uploads_of s u = []"
    using consistentD2 [OF assms, of u] by (simp add: recent_frame)
  then show "uploads_of (snd (JSONUserManager_getRecentUploads uid limit s)) u = []"
    by (cases "u = uid") (simp_all add: recent_uploads)
qed

subsection \<open>Runs\<close>

text \<open>
  An identity that has a user record keeps one, and a name found on the prototype stays
  there.
\<close>

lemma record_users_mono:
  "users s u \<noteq> None \<Longrightarrow> users (snd (JSONUserManager_recordUpload uid d uuid now s)) u \<noteq> None"
  by (auto simp: JSONUserManager_recordUpload_def Let_def
      split: property.splits js_inherited.splits)

lemma record_prototype:
  "prototypeLastActivity (snd (JSONUserManager_recordUpload uid d uuid now s)) =
     prototypeLastActivity s \<or>
   prototypeLastActivity (snd (JSONUserManager_recordUpload uid d uuid now s)) = Some now"
  by (auto simp: JSONUserManager_recordUpload_def Let_def
      split: property.splits js_inherited.splits)

lemma create_users_mono:
  "users s u \<noteq> None \<Longrightarrow> users (snd (JSONUserManager_createOrGetUser uid em now s)) u \<noteq> None"
  by (auto simp: JSONUserManager_createOrGetUser_def Let_def
      split: property.splits js_inherited.splits)

lemma create_prototype:
  "prototypeLastActivity (snd (JSONUserManager_createOrGetUser uid em now s)) =
     prototypeLastActivity s \<or>
   prototypeLastActivity (snd (JSONUserManager_createOrGetUser uid em now s)) = Some now"
  by (auto simp: JSONUserManager_createOrGetUser_def Let_def
      split: property.splits js_inherited.splits)

lemma users_step_mono: "users s u \<noteq> None \<Longrightarrow> users (json_step x s) u \<noteq> None"
  by (cases x) (simp_all add: create_users_mono record_users_mono rate_frame recent_frame
      cleanup_frame)

lemma prototype_step:
  "prototypeLastActivity (json_step x s) = prototypeLastActivity s \<or>
   (\<exists>t. prototypeLastActivity (json_step x s) = Some t)"
proof (cases x)
  case (CreateOrGetUser uid em now)
  then show ?thesis using create_prototype [of uid em now s] by auto
next
  case (RecordUpload uid d uuid now)
  then show ?thesis using record_prototype [of uid d uuid now s] by auto
qed (simp_all add: rate_frame recent_frame cleanup_frame)

lemma known_step_mono:
  assumes "users s u \<noteq> None \<or> Object_prototype (prototypeLastActivity s) u \<noteq> None"
  shows "users (json_step x s) u \<noteq> None \<or>
         Object_prototype (prototypeLastActivity (json_step x s)) u \<noteq> None"
proof (cases "users s u")
  case (Some usr)
  then show ?thesis using users_step_mono [of s u x] by simp
next
  case None
  then have p: "Object_prototype (prototypeLastActivity s) u \<noteq> None" using assms by simp
  have "Object_prototype (prototypeLastActivity (json_step x s)) u \<noteq> None"
  proof (cases "prototypeLastActivity (json_step x s) = prototypeLastActivity s")
    case True
    then show ?thesis using p by simp
  next
    case False
    then obtain t where "prototypeLastActivity (json_step x s) = Some t"
      using prototype_step [of x s] by auto
    then show ?thesis using prototype_stays [OF p, of t] by simp
  qed
  then show ?thesis by simp
qed

lemma consistent_step:
  assumes "consistent s" and "exact_step s x"
    and "\<And>uid d uuid now. x = RecordUpload uid d uuid now \<Longrightarrow>
           users s uid \<noteq> None \<or> Object_prototype (prototypeLastActivity s) uid \<noteq> None"
  shows "consistent (json_step x s)"
proof (cases x)
  case (RecordUpload uid d uuid now)
  then show ?thesis using assms stats_record [of s uid d uuid now] by simp
qed (simp_all add: assms(1) stats_create stats_rate stats_recent stats_cleanup)

lemma consistent_run:
  "consistent s \<Longrightarrow>
   \<forall>uid \<in> set known.
     users s uid \<noteq> None \<or> Object_prototype (prototypeLastActivity s) uid \<noteq> None \<Longrightarrow>
   preceded known ops \<Longrightarrow> exact_run s ops \<Longrightarrow> consistent (json_run s ops)"
proof (induction ops arbitrary: s known)
  case Nil
  then show ?case by simp
next
  case (Cons x ops)
  let ?t = "json_step x s"
  have mono: "\<forall>u \<in> set known.
      users ?t u \<noteq> None \<or> Object_prototype (prototypeLastActivity ?t) u \<noteq> None"
    using Cons.prems(2) known_step_mono by blast
  have ex: "exact_step s x" and rest: "exact_run ?t ops"
    using Cons.prems(4) by simp_all
  have c: "consistent ?t"
  proof (rule consistent_step [OF Cons.prems(1) ex])
    fix uid d uuid now assume "x = RecordUpload uid d uuid now"
    then show "users s uid \<noteq> None \<or> Object_prototype (prototypeLastActivity s) uid \<noteq> None"
      using Cons.prems(2,3) by simp
  qed
  show ?case
  proof (cases x)
    case (CreateOrGetUser uid em now)
    have k: "\<forall>u \<in> set (uid # known).
        users ?t u \<noteq> None \<or> Object_prototype (prototypeLastActivity ?t) u \<noteq> None"
      using mono create_known [of uid em now s] CreateOrGetUser by simp
    show ?thesis using Cons.IH [OF c k _ rest] Cons.prems(3) CreateOrGetUser by simp
  next
    case (RecordUpload uid d uuid now)
    show ?thesis using Cons.IH [OF c mono _ rest] Cons.prems(3) RecordUpload by simp
  next
    case (CheckRateLimit uid ip w m now)
    show ?thesis using Cons.IH [OF c mono _ rest] Cons.prems(3) CheckRateLimit by simp
  next
    case (GetRecentUploads uid limit)
    show ?thesis using Cons.IH [OF c mono _ rest] Cons.prems(3) GetRecentUploads by simp
  next
    case (Cleanup daysOld now)
    show ?thesis using Cons.IH [OF c mono _ rest] Cons.prems(3) Cleanup by simp
  qed
qed

lemma consistent_empty: "consistent json_empty"
  by (simp add: consistent_def stats_match_def json_empty_def uploads_of_def)

text \<open>
  From a ledger in which the statistics agree with the stored records, every run in which
  each \<^verbatim>\<open>recordUpload\<close> is preceded by a \<^verbatim>\<open>createOrGetUser\<close> for the same identity, and in
  which the totals stay within the integers that a double holds exactly, leaves the
  statistics of every identity in agreement with its stored upload records.
\<close>

lemma statistics_invariant:
  assumes "consistent s0"
    and "\<forall>uid \<in> set known.
           users s0 uid \<noteq> None \<or> Object_prototype (prototypeLastActivity s0) uid \<noteq> None"
    and "preceded known ops" and "exact_run s0 ops"
  shows "stats_match (json_run s0 ops) u"
  using consistent_run [OF assms] by (rule consistentD1)

lemma statistics_invariant_from_empty:
  "preceded [] ops \<Longrightarrow> exact_run json_empty ops \<Longrightarrow> stats_match (json_run json_empty ops) u"
  using statistics_invariant [of json_empty "[]" ops u] consistent_empty by simp

text \<open>Recording before the user record exists leaves the statistics behind the records.\<close>

lemma broken_when_recorded_first:
  "\<not> preceded [] ops_recorded_first \<and> exact_run json_empty ops_recorded_first \<and>
   \<not> stats_match (json_run json_empty ops_recorded_first) ''w1''"
  by code_simp

text \<open>
  Beyond \<open>2^53\<close> the total is rounded: after uploads of 9007199254740992 bytes and of 1 byte,
  \<^verbatim>\<open>totalSizeBytes\<close> is 9007199254740992.
\<close>

lemma broken_beyond_safe_integers:
  "preceded [] ops_beyond_safe_integers \<and> \<not> exact_run json_empty ops_beyond_safe_integers \<and>
   map_option totalSizeBytes (users (json_run json_empty ops_beyond_safe_integers) ''w1'') =
     Some 9007199254740992 \<and>
   sum_list (map fileSize (uploads_of (json_run json_empty ops_beyond_safe_integers) ''w1'')) =
     9007199254740993"
  by code_simp

lemma created_first_holds:
  "preceded [] ops_created_first \<and> exact_run json_empty ops_created_first \<and>
   map_option (\<lambda>usr. (totalUploads usr, totalSizeBytes usr))
     (users (json_run json_empty ops_created_first) ''w1'') = Some (1, 10)"
  by code_simp

text \<open>
  Claim C10 fails on \<^verbatim>\<open>JSONUserManager.recordUpload\<close> for an identity that is the name of a
  property of \<^verbatim>\<open>Object.prototype\<close>. On a new manager the identity \<^verbatim>\<open>constructor\<close> has no
  user record, and \<^verbatim>\<open>createOrGetUser\<close> gives it none: the call returns the inherited
  function. \<^verbatim>\<open>recordUpload\<close> for it, before or after \<^verbatim>\<open>createOrGetUser\<close>, throws a
  \<^verbatim>\<open>TypeError\<close> and stores nothing, and so it does for \<^verbatim>\<open>__proto__\<close> and \<^verbatim>\<open>toString\<close>; the
  claim requires the upload record to be appended. For the identity w1, which has no user
  record either, the same call returns the record, appends it and writes no statistics; and
  in the SQLite ledger \<^verbatim>\<open>createOrGetUser\<close> gives \<^verbatim>\<open>constructor\<close> a user record and
  \<^verbatim>\<open>recordUpload\<close> appends its row and counts it.
\<close>

theorem JSON_recordUpload_throws_on_prototype_name:
  "users json_empty ''constructor'' = None \<and>
   fst (JSONUserManager_recordUpload ''constructor'' sample_upload ''id1'' 2 json_empty) =
     Inl (TypeError ''this.uploads[userId].push is not a function'') \<and>
   uploads (snd (JSONUserManager_recordUpload ''constructor'' sample_upload ''id1'' 2 json_empty))
     ''constructor'' = None \<and>
   fst (JSONUserManager_createOrGetUser ''constructor'' None 1 json_empty) =
     Inr (Inherited PrototypeFunction) \<and>
   users (snd (JSONUserManager_createOrGetUser ''constructor'' None 1 json_empty))
     ''constructor'' = None \<and>
   fst (JSONUserManager_recordUpload ''constructor'' sample_upload ''id1'' 2
          (snd (JSONUserManager_createOrGetUser ''constructor'' None 1 json_empty))) =
     Inl (TypeError ''this.uploads[userId].push is not a function'') \<and>
   uploads (snd (JSONUserManager_recordUpload ''constructor'' sample_upload ''id1'' 2
          (snd (JSONUserManager_createOrGetUser ''constructor'' None 1 json_empty))))
     ''constructor'' = None \<and>
   fst (JSONUserManager_recordUpload ''__proto__'' sample_upload ''id1'' 2 json_empty) =
     Inl (TypeError ''this.uploads[userId].push is not a function'') \<and>
   fst (JSONUserManager_recordUpload ''toString'' sample_upload ''id1'' 2 json_empty) =
     Inl (TypeError ''this.uploads[userId].push is not a function'') \<and>
   users json_empty ''w1'' = None \<and>
   fst (JSONUserManager_recordUpload ''w1'' sample_upload ''id1'' 2 json_empty) =
     Inr \<lparr>transactionId = ''tx1'', fileName = ''logo.png'', fileSize = 10,
          contentType = ''image/png'', publicURL = ''https://gateway.irys.xyz/tx1'',
          uploadTime = 5, recId = ''id1'', recCreatedAt = 2\<rparr> \<and>
   uploads (snd (JSONUserManager_recordUpload ''w1'' sample_upload ''id1'' 2 json_empty)) ''w1'' =
     Some [\<lparr>transactionId = ''tx1'', fileName = ''logo.png'', fileSize = 10,
            contentType = ''image/png'', publicURL = ''https://gateway.irys.xyz/tx1'',
            uploadTime = 5, recId = ''id1'', recCreatedAt = 2\<rparr>] \<and>
   users (snd (JSONUserManager_recordUpload ''w1'' sample_upload ''id1'' 2 json_empty)) ''w1'' =
     None \<and>
   map (\<lambda>r. (uh_user_id r, uh_transaction_id r, uh_file_size r))
     (upload_history (snd (UserManager_recordUpload ''constructor'' sample_upload noon_31
        (snd (UserManager_createOrGetUser ''constructor'' None noon_30 user_db_empty))))) =
     [(''constructor'', ''tx1'', 10)] \<and>
   map (\<lambda>r. (us_user_id r, us_total_uploads r, us_total_size_bytes r))
     (user_sessions (snd (UserManager_recordUpload ''constructor'' sample_upload noon_31
        (snd (UserManager_createOrGetUser ''constructor'' None noon_30 user_db_empty))))) =
     [(''constructor'', 1, 10)]"
  by code_simp

section \<open>Proofs: rate limiting and the SQLite ledgers\<close>

subsection \<open>The JSON rate limiter meets the window rule\<close>

lemma JSON_checkRateLimit_denies:
  "Object_prototype (prototypeLastActivity s) uid = None \<Longrightarrow>
   maxRequests \<le>
     int (length (filter (\<lambda>r. timestamp r > js_minus now w) (rate_entries_of s uid))) \<Longrightarrow>
   fst (JSONUserManager_checkRateLimit uid ip w maxRequests now s) =
     Inr \<lparr>allowed = False, remaining = 0, resetTime = js_plus now w\<rparr> \<and>
   rate_entries_of (snd (JSONUserManager_checkRateLimit uid ip w maxRequests now s)) uid =
     filter (\<lambda>r. timestamp r > js_minus now w) (rate_entries_of s uid)"
  by (cases "rateLimits s uid")
     (simp_all add: JSONUserManager_checkRateLimit_def Let_def rate_entries_of_def
        property_of_def)

lemma JSON_checkRateLimit_admits:
  "Object_prototype (prototypeLastActivity s) uid = None \<Longrightarrow>
   int (length (filter (\<lambda>r. timestamp r > js_minus now w) (rate_entries_of s uid))) <
     maxRequests \<Longrightarrow>
   fst (JSONUserManager_checkRateLimit uid ip w maxRequests now s) =
     Inr \<lparr>allowed = True,
          remaining = js_minus (js_minus maxRequests
            (int (length (filter (\<lambda>r. timestamp r > js_minus now w)
               (rate_entries_of s uid))))) 1,
          resetTime = js_plus now w\<rparr> \<and>
   rate_entries_of (snd (JSONUserManager_checkRateLimit uid ip w maxRequests now s)) uid =
     filter (\<lambda>r. timestamp r > js_minus now w) (rate_entries_of s uid) @
       [\<lparr>timestamp = now, ipAddress = ip\<rparr>]"
  by (cases "rateLimits s uid")
     (simp_all add: JSONUserManager_checkRateLimit_def Let_def rate_entries_of_def
        property_of_def)

lemma JSON_checkRateLimit_others:
  "u \<noteq> uid \<Longrightarrow>
   rateLimits (snd (JSONUserManager_checkRateLimit uid ip w maxRequests now s)) u = rateLimits s u"
  by (cases "property_of (prototypeLastActivity s) (rateLimits s) uid")
     (simp_all add: JSONUserManager_checkRateLimit_def Let_def)

lemma JSON_second_request_denied:
  "fst (JSONUserManager_checkRateLimit ''w1'' ''10.0.0.1'' 60000 1 noon_31
         (snd (JSONUserManager_checkRateLimit ''w1'' ''10.0.0.1'' 60000 1 noon_30 json_empty))) =
     Inr \<lparr>allowed = False, remaining = 0, resetTime = 1704110491000\<rparr>"
  by code_simp

subsection \<open>The SQLite rate limiters compare texts of two formats\<close>

lemma text_less_common_prefix: "text_less (p @ a) (p @ b) = text_less a b"
  by (induction p) simp_all

lemma length_date_text: "length (date_text t) = 10"
  by (simp add: date_text_def pad2_def pad4_def)

text \<open>
  A row stamped on the same UTC day as the cutoff never satisfies \<^verbatim>\<open>request_time > ?\<close>: after
  the common date, the row has a space where the cutoff has the letter T.
\<close>

lemma same_day_row_not_counted:
  assumes "date_text (civil_from_ms t) = date_text (civil_from_ms c)"
  shows "\<not> text_greater (CURRENT_TIMESTAMP t) (toISOString c)"
proof -
  have "text_less (date_text (civil_from_ms c) @ (''T'' @ clock_text (civil_from_ms c) @ ''.'' @
            pad3 (millis (civil_from_ms c)) @ ''Z''))
          (date_text (civil_from_ms c) @ ('' '' @ clock_text (civil_from_ms t))) = False"
    unfolding text_less_common_prefix by simp
  then show ?thesis
    using assms by (simp add: text_greater_def CURRENT_TIMESTAMP_def toISOString_def Let_def)
qed

text \<open>
  Claim C2 fails on the two SQLite rate limiters. With a ceiling of one request per 60000 ms,
  identity w1 is admitted at 12:00:30 and admitted again one second later: the row recorded
  at 12:00:30 is inside the window, but the query compares its text \<^verbatim>\<open>2024-01-01 12:00:30\<close>
  with the cutoff text \<^verbatim>\<open>2024-01-01T11:59:31.000Z\<close> and counts no row. The claim requires the
  second check to count one entry and deny.
\<close>

theorem sqlite_rate_limit_admits_over_ceiling:
  "fst (UserManager_checkRateLimit ''w1'' ''10.0.0.1'' 60000 1 noon_31
      (snd (UserManager_checkRateLimit ''w1'' ''10.0.0.1'' 60000 1 noon_30 user_db_empty))) =
     Resolved \<lparr>allowed = True, remaining = 0, resetTime = 1704110491000\<rparr> \<and>
   rate_limits (snd (UserManager_checkRateLimit ''w1'' ''10.0.0.1'' 60000 1 noon_31
      (snd (UserManager_checkRateLimit ''w1'' ''10.0.0.1'' 60000 1 noon_30 user_db_empty)))) =
     [\<lparr>rl_user = ''w1'', rl_request_time = ''2024-01-01 12:00:30'',
       rl_ip_address = ''10.0.0.1''\<rparr>,
      \<lparr>rl_user = ''w1'', rl_request_time = ''2024-01-01 12:00:31'',
       rl_ip_address = ''10.0.0.1''\<rparr>] \<and>
   toISOString (noon_31 - 60000) = ''2024-01-01T11:59:31.000Z'' \<and>
   fst (ProductionDatabase_checkRateLimit 60000 1 ''w1'' ''10.0.0.1'' noon_31
      (snd (ProductionDatabase_checkRateLimit 60000 1 ''w1'' ''10.0.0.1'' noon_30 prod_db_empty))) =
     Resolved \<lparr>allowed = True, remaining = 0, resetTime = 1704110491000\<rparr> \<and>
   rate_limits_table (snd (ProductionDatabase_checkRateLimit 60000 1 ''w1'' ''10.0.0.1'' noon_31
      (snd (ProductionDatabase_checkRateLimit 60000 1 ''w1'' ''10.0.0.1'' noon_30
         prod_db_empty)))) =
     [\<lparr>rl_user = ''w1'', rl_request_time = ''2024-01-01 12:00:30'',
       rl_ip_address = ''10.0.0.1''\<rparr>,
      \<lparr>rl_user = ''w1'', rl_request_time = ''2024-01-01 12:00:31'',
       rl_ip_address = ''10.0.0.1''\<rparr>]"
  by code_simp

subsection \<open>Recording uploads and token assets\<close>

lemma ProductionDatabase_recordUpload_rejects_duplicate:
  "\<exists>r \<in> set (uploads_table db). up_transaction_id r = transactionId d \<Longrightarrow>
   ProductionDatabase_recordUpload wallet d mj tj now db =
     (Rejected ''SQLITE_CONSTRAINT: UNIQUE constraint failed: uploads.transaction_id'', db)"
  by (simp add: ProductionDatabase_recordUpload_def)

lemma ProductionDatabase_recordUpload_keeps_statistics:
  "users_table (snd (ProductionDatabase_recordUpload wallet d mj tj now db)) = users_table db"
  by (simp add: ProductionDatabase_recordUpload_def Let_def)

lemma ProductionDatabase_recordUpload_never_resolves:
  "fst (ProductionDatabase_recordUpload wallet d mj tj now db) \<noteq> Resolved n"
  by (simp add: ProductionDatabase_recordUpload_def Let_def)

text \<open>
  Claim C3 fails on \<^verbatim>\<open>UserManager.recordUpload\<close>. Recording the same upload, transaction id
  tx1, twice for user w1 succeeds twice: \<^verbatim>\<open>upload_history\<close> then holds two rows with
  transaction id tx1 and the user's statistics count two uploads and 20 bytes. The claim
  requires the second call to fail with a duplicate-transaction error.
\<close>

theorem UserManager_recordUpload_accepts_duplicate:
  "map (\<lambda>r. (us_user_id r, us_total_uploads r, us_total_size_bytes r))
     (user_sessions user_db_one_user) = [(''w1'', 0, 0)] \<and>
   fst (UserManager_recordUpload ''w1'' sample_upload noon_31
      (snd (UserManager_recordUpload ''w1'' sample_upload noon_31 user_db_one_user))) =
     Resolved 2 \<and>
   map (\<lambda>r. (uh_id r, uh_user_id r, uh_transaction_id r, uh_file_size r))
     (upload_history (snd (UserManager_recordUpload ''w1'' sample_upload noon_31
        (snd (UserManager_recordUpload ''w1'' sample_upload noon_31 user_db_one_user))))) =
     [(1, ''w1'', ''tx1'', 10), (2, ''w1'', ''tx1'', 10)] \<and>
   map (\<lambda>r. (us_user_id r, us_total_uploads r, us_total_size_bytes r))
     (user_sessions (snd (UserManager_recordUpload ''w1'' sample_upload noon_31
        (snd (UserManager_recordUpload ''w1'' sample_upload noon_31 user_db_one_user))))) =
     [(''w1'', 2, 20)]"
  by code_simp

text \<open>
  Claim C5 fails on \<^verbatim>\<open>ProductionDatabase.recordTokenAsset\<close>. On a ledger that holds user w1 and
  no upload at all, recording a token asset whose logo and metadata references are the
  transaction ids L1 and M1 resolves, and the row is in \<^verbatim>\<open>token_assets\<close> while \<^verbatim>\<open>uploads\<close> is
  still empty. The claim requires the call to fail with a dangling-reference error.
\<close>

theorem recordTokenAsset_accepts_dangling_references:
  "uploads_table prod_db_one_user = [] \<and>
   fst (ProductionDatabase_recordTokenAsset ''w1''
          \<lparr>tad_name = ''My Token'', tad_symbol = ''MT'', tad_metadata = sample_metadata\<rparr>
          sample_logo_result sample_metadata_result ''token_w1_1'' noon_31 prod_db_one_user) =
     Resolved 1 \<and>
   map (\<lambda>r. (ta_logo_transaction_id r, ta_metadata_transaction_id r))
     (token_assets_table (snd (ProductionDatabase_recordTokenAsset ''w1''
          \<lparr>tad_name = ''My Token'', tad_symbol = ''MT'', tad_metadata = sample_metadata\<rparr>
          sample_logo_result sample_metadata_result ''token_w1_1'' noon_31 prod_db_one_user))) =
     [(''L1'', ''M1'')] \<and>
   uploads_table (snd (ProductionDatabase_recordTokenAsset ''w1''
          \<lparr>tad_name = ''My Token'', tad_symbol = ''MT'', tad_metadata = sample_metadata\<rparr>
          sample_logo_result sample_metadata_result ''token_w1_1'' noon_31 prod_db_one_user)) = []"
  by code_simp

section \<open>Proofs: connection pools\<close>

lemma ConnectionPool_release_waiting:
  "waitingQueue s = w # ws \<Longrightarrow>
   ConnectionPool_releaseConnection h s = (Some (w, h), s\<lparr>waitingQueue := ws\<rparr>)"
  by (simp add: ConnectionPool_releaseConnection_def)

lemma ConnectionPool_release_idle:
  "waitingQueue s = [] \<Longrightarrow>
   ConnectionPool_releaseConnection h s = (None, s\<lparr>pool := pool s @ [h]\<rparr>)"
  by (simp add: ConnectionPool_releaseConnection_def)

lemma ConnectionPool_release_all_fifo:
  "length hs \<le> length (waitingQueue s) \<Longrightarrow>
   ConnectionPool_release_all hs s =
     (zip (take (length hs) (waitingQueue s)) hs,
      s\<lparr>waitingQueue := drop (length hs) (waitingQueue s)\<rparr>)"
proof (induction hs arbitrary: s)
  case Nil
  then show ?case by simp
next
  case (Cons h hs)
  then obtain w ws where q: "waitingQueue s = w # ws"
    by (cases "waitingQueue s") auto
  have len: "length hs \<le> length (waitingQueue (s\<lparr>waitingQueue := ws\<rparr>))"
    using Cons.prems q by simp
  show ?case
    using Cons.IH [OF len] q by (simp add: ConnectionPool_release_waiting)
qed

lemma UltraFast_release_waiting:
  "waiting s = w # ws \<Longrightarrow>
   UltraFastConnectionPool_releaseConnection h s =
     (Some (w, h), s\<lparr>active := remove1 h (active s) @ [h], waiting := ws\<rparr>)"
  by (simp add: UltraFastConnectionPool_releaseConnection_def Let_def)

lemma UltraFast_release_idle:
  "waiting s = [] \<Longrightarrow>
   UltraFastConnectionPool_releaseConnection h s =
     (None, s\<lparr>active := remove1 h (active s), upool := upool s @ [h]\<rparr>)"
  by (simp add: UltraFastConnectionPool_releaseConnection_def Let_def)

lemma UltraFast_release_all_fifo:
  "length hs \<le> length (waiting s) \<Longrightarrow>
   fst (UltraFastConnectionPool_release_all hs s) = zip (take (length hs) (waiting s)) hs \<and>
   upool (snd (UltraFastConnectionPool_release_all hs s)) = upool s \<and>
   waiting (snd (UltraFastConnectionPool_release_all hs s)) = drop (length hs) (waiting s)"
proof (induction hs arbitrary: s)
  case Nil
  then show ?case by simp
next
  case (Cons h hs)
  then obtain w ws where q: "waiting s = w # ws"
    by (cases "waiting s") auto
  let ?s1 = "s\<lparr>active := remove1 h (active s) @ [h], waiting := ws\<rparr>"
  have len: "length hs \<le> length (waiting ?s1)"
    using Cons.prems q by simp
  show ?case
    using Cons.IH [OF len] q
    by (simp add: UltraFast_release_waiting split_beta)
qed

lemma ConnectionPool_suspends_at_tail:
  "pool s = [] \<Longrightarrow> \<not> activeConnections s < maxConnections s \<Longrightarrow>
   ConnectionPool_getConnection who c s = (Suspended, s\<lparr>waitingQueue := waitingQueue s @ [who]\<rparr>)"
  by (simp add: ConnectionPool_getConnection_def)

lemma UltraFast_suspends_at_tail:
  "upool s = [] \<Longrightarrow> \<not> int (length (active s)) < umaxConnections s \<Longrightarrow>
   UltraFastConnectionPool_getConnection who c s = (Suspended, s\<lparr>waiting := waiting s @ [who]\<rparr>)"
  by (simp add: UltraFastConnectionPool_getConnection_def)

lemma simple_pool_exhausted_eq:
  "simple_pool_exhausted = \<lparr>connectionPool = [], simpleActive = 10, sleeping = [11]\<rparr>"
  by (simp add: simple_pool_exhausted_def simple_getConnection_def simple_pool_new_def
      simple_maxConnections_def Let_def)

text \<open>
  Claim C4, as stated, fails on the pool of src/src/api-production-final.js. After ten
  acquirers have constructed the ten connections, acquirer 11 is suspended (in its 100 ms
  timer); when handle 3 is then released, it is placed in the idle list and acquirer 11 is
  still suspended: nothing is handed over.
\<close>

theorem simple_pool_release_counterexample:
  "11 \<in> set (sleeping simple_pool_exhausted) \<and>
   connectionPool simple_pool_exhausted = [] \<and>
   connectionPool (simple_releaseConnection 3 simple_pool_exhausted) = [3] \<and>
   sleeping (simple_releaseConnection 3 simple_pool_exhausted) = [11]"
  by (simp add: simple_pool_exhausted_eq simple_releaseConnection_def)

lemma simple_timer_after_release:
  "simple_timer_fires who c (simple_releaseConnection h t) =
     (Acquired h, t\<lparr>sleeping := remove1 who (sleeping t)\<rparr>)"
  by (simp add: simple_timer_fires_def simple_getConnection_def simple_releaseConnection_def)

lemma simple_timer_exhausted:
  "connectionPool t = [] \<Longrightarrow> \<not> simpleActive t < simple_maxConnections \<Longrightarrow>
   simple_timer_fires who c t = (Suspended, t\<lparr>sleeping := remove1 who (sleeping t) @ [who]\<rparr>)"
  by (simp add: simple_timer_fires_def simple_getConnection_def)

lemma simple_suspends:
  "connectionPool t = [] \<Longrightarrow> \<not> simpleActive t < simple_maxConnections \<Longrightarrow>
   simple_getConnection who c t = (Suspended, t\<lparr>sleeping := sleeping t @ [who]\<rparr>)"
  by (simp add: simple_getConnection_def)

text \<open>
  Claim C4, amended. In the two pools that keep a queue of waiting acquirers
  (\<^verbatim>\<open>ConnectionPool\<close> and \<^verbatim>\<open>UltraFastConnectionPool\<close>), a suspended acquirer joins the queue at
  its tail; whenever a handle is released while the queue is non-empty, the handle goes to
  the acquirer at the head of the queue, exactly that one is woken, and the idle list is
  unchanged; a run of releases serves the waiting acquirers in the order in which they were
  suspended; and only a release with an empty queue appends the handle to the idle list.
  The pool of src/src/api-production-final.js has no queue: an acquirer that finds the pool
  exhausted is suspended in a timer; a release always appends the handle to the idle list
  and wakes no one; a suspended acquirer is woken by its own timer and runs \<^verbatim>\<open>getConnection\<close>
  again: after a release it takes the released handle, whichever of the suspended acquirers
  it is, and while the pool is still exhausted it is suspended again.
\<close>

theorem pool_release_fifo:
  "(waitingQueue s = w # ws \<longrightarrow>
      ConnectionPool_releaseConnection h s = (Some (w, h), s\<lparr>waitingQueue := ws\<rparr>)) \<and>
   (waitingQueue s = [] \<longrightarrow>
      ConnectionPool_releaseConnection h s = (None, s\<lparr>pool := pool s @ [h]\<rparr>)) \<and>
   (length hs \<le> length (waitingQueue s) \<longrightarrow>
      ConnectionPool_release_all hs s =
        (zip (take (length hs) (waitingQueue s)) hs,
         s\<lparr>waitingQueue := drop (length hs) (waitingQueue s)\<rparr>)) \<and>
   (pool s = [] \<and> \<not> activeConnections s < maxConnections s \<longrightarrow>
      ConnectionPool_getConnection who c s =
        (Suspended, s\<lparr>waitingQueue := waitingQueue s @ [who]\<rparr>)) \<and>
   (waiting u = w # ws \<longrightarrow>
      UltraFastConnectionPool_releaseConnection h u =
        (Some (w, h), u\<lparr>active := remove1 h (active u) @ [h], waiting := ws\<rparr>)) \<and>
   (waiting u = [] \<longrightarrow>
      UltraFastConnectionPool_releaseConnection h u =
        (None, u\<lparr>active := remove1 h (active u), upool := upool u @ [h]\<rparr>)) \<and>
   (length hs \<le> length (waiting u) \<longrightarrow>
      fst (UltraFastConnectionPool_release_all hs u) = zip (take (length hs) (waiting u)) hs \<and>
      upool (snd (UltraFastConnectionPool_release_all hs u)) = upool u \<and>
      waiting (snd (UltraFastConnectionPool_release_all hs u)) = drop (length hs) (waiting u)) \<and>
   (upool u = [] \<and> \<not> int (length (active u)) < umaxConnections u \<longrightarrow>
      UltraFastConnectionPool_getConnection who c u =
        (Suspended, u\<lparr>waiting := waiting u @ [who]\<rparr>)) \<and>
   simple_releaseConnection h t = t\<lparr>connectionPool := connectionPool t @ [h]\<rparr> \<and>
   (connectionPool t = [] \<and> \<not> simpleActive t < simple_maxConnections \<longrightarrow>
      simple_getConnection who c t = (Suspended, t\<lparr>sleeping := sleeping t @ [who]\<rparr>) \<and>
      simple_timer_fires who c t =
        (Suspended, t\<lparr>sleeping := remove1 who (sleeping t) @ [who]\<rparr>)) \<and>
   simple_timer_fires who c (simple_releaseConnection h t) =
     (Acquired h, t\<lparr>sleeping := remove1 who (sleeping t)\<rparr>)"
  using ConnectionPool_release_waiting [of s w ws h] ConnectionPool_release_idle [of s h]
    ConnectionPool_release_all_fifo [of hs s] ConnectionPool_suspends_at_tail [of s who c]
    UltraFast_release_waiting [of u w ws h] UltraFast_release_idle [of u h]
    UltraFast_release_all_fifo [of hs u] UltraFast_suspends_at_tail [of u who c]
    simple_timer_after_release [of who c h t] simple_timer_exhausted [of t who c]
    simple_suspends [of t who c]
  by (simp add: simple_releaseConnection_def)

theorem pool_release_fifo_witness:
  "ConnectionPool_releaseConnection 5
       \<lparr>pool = [], activeConnections = 2, maxConnections = 2, waitingQueue = [8, 9]\<rparr> =
     (Some (8, 5), \<lparr>pool = [], activeConnections = 2, maxConnections = 2, waitingQueue = [9]\<rparr>) \<and>
   ConnectionPool_releaseConnection 5
       \<lparr>pool = [], activeConnections = 2, maxConnections = 2, waitingQueue = []\<rparr> =
     (None, \<lparr>pool = [5], activeConnections = 2, maxConnections = 2, waitingQueue = []\<rparr>) \<and>
   ConnectionPool_release_all [5, 6]
       \<lparr>pool = [], activeConnections = 2, maxConnections = 2, waitingQueue = [8, 9]\<rparr> =
     ([(8, 5), (9, 6)],
      \<lparr>pool = [], activeConnections = 2, maxConnections = 2, waitingQueue = []\<rparr>) \<and>
   UltraFastConnectionPool_releaseConnection 5
       \<lparr>upool = [], active = [5, 6], waiting = [8, 9], umaxConnections = 2,
        ustats = \<lparr>created = 2, reused = 0, errors = 0\<rparr>\<rparr> =
     (Some (8, 5),
      \<lparr>upool = [], active = [6, 5], waiting = [9], umaxConnections = 2,
       ustats = \<lparr>created = 2, reused = 0, errors = 0\<rparr>\<rparr>) \<and>
   UltraFastConnectionPool_getConnection 9 (Inr 7)
       \<lparr>upool = [], active = [5, 6], waiting = [8], umaxConnections = 2,
        ustats = \<lparr>created = 2, reused = 0, errors = 0\<rparr>\<rparr> =
     (Suspended,
      \<lparr>upool = [], active = [5, 6], waiting = [8, 9], umaxConnections = 2,
       ustats = \<lparr>created = 2, reused = 0, errors = 0\<rparr>\<rparr>) \<and>
   simple_getConnection 12 (Inr 20) \<lparr>connectionPool = [], simpleActive = 10, sleeping = [11]\<rparr> =
     (Suspended, \<lparr>connectionPool = [], simpleActive = 10, sleeping = [11, 12]\<rparr>) \<and>
   simple_timer_fires 11 (Inr 20)
       \<lparr>connectionPool = [], simpleActive = 10, sleeping = [11, 12]\<rparr> =
     (Suspended, \<lparr>connectionPool = [], simpleActive = 10, sleeping = [12, 11]\<rparr>) \<and>
   simple_timer_fires 12 (Inr 20)
       (simple_releaseConnection 3
          \<lparr>connectionPool = [], simpleActive = 10, sleeping = [11, 12]\<rparr>) =
     (Acquired 3, \<lparr>connectionPool = [], simpleActive = 10, sleeping = [11]\<rparr>)"
proof -
  let ?s = "\<lparr>pool = [], activeConnections = 2, maxConnections = 2, waitingQueue = [8, 9]\<rparr>"
  let ?u = "\<lparr>upool = [], active = [5, 6], waiting = [8, 9], umaxConnections = 2,
        ustats = \<lparr>created = 2, reused = 0, errors = 0\<rparr>\<rparr>"
  have a: "ConnectionPool_releaseConnection 5 ?s =
      (Some (8, 5), \<lparr>pool = [], activeConnections = 2, maxConnections = 2, waitingQueue = [9]\<rparr>)"
    and b: "ConnectionPool_release_all [5, 6] ?s =
      ([(8, 5), (9, 6)],
       \<lparr>pool = [], activeConnections = 2, maxConnections = 2, waitingQueue = []\<rparr>)"
    and c: "UltraFastConnectionPool_releaseConnection 5 ?u =
      (Some (8, 5),
       \<lparr>upool = [], active = [6, 5], waiting = [9], umaxConnections = 2,
        ustats = \<lparr>created = 2, reused = 0, errors = 0\<rparr>\<rparr>)"
    using pool_release_fifo [where s = ?s and w = 8 and ws = "[9]" and h = 5 and hs = "[5, 6]"
        and u = ?u and who = 9 and c = "Inr 7" and t = simple_pool_new]
    by (simp_all del: ConnectionPool_release_all.simps UltraFastConnectionPool_release_all.simps)
  have d: "ConnectionPool_releaseConnection 5
       \<lparr>pool = [], activeConnections = 2, maxConnections = 2, waitingQueue = []\<rparr> =
     (None, \<lparr>pool = [5], activeConnections = 2, maxConnections = 2, waitingQueue = []\<rparr>)"
    using pool_release_fifo [where
        s = "\<lparr>pool = [], activeConnections = 2, maxConnections = 2, waitingQueue = []\<rparr>"
        and h = 5 and hs = "[]" and u = ?u and w = 8 and ws = "[9]" and who = 9 and c = "Inr 7"
        and t = simple_pool_new]
    by (simp del: ConnectionPool_release_all.simps UltraFastConnectionPool_release_all.simps)
  have e: "UltraFastConnectionPool_getConnection 9 (Inr 7)
       \<lparr>upool = [], active = [5, 6], waiting = [8], umaxConnections = 2,
        ustats = \<lparr>created = 2, reused = 0, errors = 0\<rparr>\<rparr> =
     (Suspended,
      \<lparr>upool = [], active = [5, 6], waiting = [8, 9], umaxConnections = 2,
       ustats = \<lparr>created = 2, reused = 0, errors = 0\<rparr>\<rparr>)"
    using pool_release_fifo [where s = ?s and h = 5 and hs = "[]" and w = 8 and ws = "[9]"
        and u = "\<lparr>upool = [], active = [5, 6], waiting = [8], umaxConnections = 2,
                 ustats = \<lparr>created = 2, reused = 0, errors = 0\<rparr>\<rparr>"
        and who = 9 and c = "Inr 7" and t = simple_pool_new]
    by (simp del: ConnectionPool_release_all.simps UltraFastConnectionPool_release_all.simps)
  have f: "simple_getConnection 12 (Inr 20)
       \<lparr>connectionPool = [], simpleActive = 10, sleeping = [11]\<rparr> =
     (Suspended, \<lparr>connectionPool = [], simpleActive = 10, sleeping = [11, 12]\<rparr>)"
    using pool_release_fifo [where s = ?s and h = 3 and hs = "[]" and w = 8 and ws = "[9]"
        and u = ?u and who = 12 and c = "Inr 20"
        and t = "\<lparr>connectionPool = [], simpleActive = 10, sleeping = [11]\<rparr>"]
    by (simp add: simple_maxConnections_def
        del: ConnectionPool_release_all.simps UltraFastConnectionPool_release_all.simps)
  have g: "simple_timer_fires 11 (Inr 20)
       \<lparr>connectionPool = [], simpleActive = 10, sleeping = [11, 12]\<rparr> =
     (Suspended, \<lparr>connectionPool = [], simpleActive = 10, sleeping = [12, 11]\<rparr>)"
    using pool_release_fifo [where s = ?s and h = 3 and hs = "[]" and w = 8 and ws = "[9]"
        and u = ?u and who = 11 and c = "Inr 20"
        and t = "\<lparr>connectionPool = [], simpleActive = 10, sleeping = [11, 12]\<rparr>"]
    by (simp add: simple_maxConnections_def
        del: ConnectionPool_release_all.simps UltraFastConnectionPool_release_all.simps)
  let ?t = "\<lparr>connectionPool = [], simpleActive = 10, sleeping = [11, 12]\<rparr>"
  have "simple_timer_fires 12 (Inr 20) (simple_releaseConnection 3 ?t) =
      (Acquired 3, ?t\<lparr>sleeping := remove1 12 (sleeping ?t)\<rparr>)"
    using pool_release_fifo [where s = ?s and h = 3 and hs = "[]" and w = 8 and ws = "[9]"
        and u = ?u and who = 12 and c = "Inr 20" and t = ?t]
    by blast
  then have h: "simple_timer_fires 12 (Inr 20) (simple_releaseConnection 3 ?t) =
      (Acquired 3, \<lparr>connectionPool = [], simpleActive = 10, sleeping = [11]\<rparr>)"
    by simp
  show ?thesis using a b c d e f g h
    by (simp del: ConnectionPool_release_all.simps UltraFastConnectionPool_release_all.simps)
qed

text \<open>
  An acquire that runs without interleaving is its two steps in sequence. Two acquires that
  both pass the test before either construction has settled both push their handle: a pool
  of size 1 then holds two active connections.
\<close>

lemma UltraFast_getConnection_in_two_steps:
  "UltraFastConnectionPool_getConnection who construct s =
     (case UltraFastConnectionPool_getConnection_begin who s of
        (Reused conn, s') \<Rightarrow> (Acquired conn, s')
      | (Constructing, s') \<Rightarrow> UltraFastConnectionPool_getConnection_resume construct s'
      | (Queued, s') \<Rightarrow> (Suspended, s'))"
  by (simp add: UltraFastConnectionPool_getConnection_def
      UltraFastConnectionPool_getConnection_begin_def
      UltraFastConnectionPool_getConnection_resume_def Let_def split: sum.splits)

lemma UltraFast_interleaved_acquires_exceed_limit:
  "UltraFastConnectionPool_getConnection_begin 1 (UltraFastConnectionPool_new 1) =
     (Constructing, UltraFastConnectionPool_new 1) \<and>
   UltraFastConnectionPool_getConnection_begin 2 (UltraFastConnectionPool_new 1) =
     (Constructing, UltraFastConnectionPool_new 1) \<and>
   active (snd (UltraFastConnectionPool_getConnection_resume (Inr 8)
     (snd (UltraFastConnectionPool_getConnection_resume (Inr 7)
        (UltraFastConnectionPool_new 1))))) = [7, 8] \<and>
   umaxConnections (UltraFastConnectionPool_new 1) = 1"
  by (simp add: UltraFastConnectionPool_getConnection_begin_def
      UltraFastConnectionPool_getConnection_resume_def UltraFastConnectionPool_new_def)

lemma UltraFast_construction_failure:
  "upool s = [] \<Longrightarrow> int (length (active s)) < umaxConnections s \<Longrightarrow>
   UltraFastConnectionPool_getConnection who (Inl err) s =
     (ConstructionFailed err, s\<lparr>ustats := (ustats s)\<lparr>errors := errors (ustats s) + 1\<rparr>\<rparr>)"
  by (simp add: UltraFastConnectionPool_getConnection_def)

lemma UltraFast_retry_after_failure:
  "upool s = [] \<Longrightarrow> int (length (active s)) < umaxConnections s \<Longrightarrow>
   fst (UltraFastConnectionPool_getConnection who' (Inr conn)
          (snd (UltraFastConnectionPool_getConnection who (Inl err) s))) = Acquired conn"
  by (simp add: UltraFastConnectionPool_getConnection_def)

text \<open>
  Claim C9 fails on \<^verbatim>\<open>ConnectionPool.getConnection\<close>, which executes
  \<^verbatim>\<open>this.activeConnections++\<close> before it awaits the construction and never takes the
  increment back. In a pool of size 1, a first acquire whose construction fails leaves
  \<^verbatim>\<open>activeConnections = 1\<close>; the next acquire, whose construction would succeed, is not given
  the chance: it is suspended in the waiting queue. The pool has no error counter.
\<close>

theorem ConnectionPool_failed_construction_consumes_slot:
  "ConnectionPool_getConnection 1 (Inl ''wallet error'') (ConnectionPool_new 1) =
     (ConstructionFailed ''wallet error'',
      \<lparr>pool = [], activeConnections = 1, maxConnections = 1, waitingQueue = []\<rparr>) \<and>
   ConnectionPool_getConnection 2 (Inr 7)
       (snd (ConnectionPool_getConnection 1 (Inl ''wallet error'') (ConnectionPool_new 1))) =
     (Suspended, \<lparr>pool = [], activeConnections = 1, maxConnections = 1, waitingQueue = [2]\<rparr>)"
  by (simp add: ConnectionPool_getConnection_def ConnectionPool_new_def)

section \<open>Proofs: file validation\<close>










section \<open>Proofs: the token uploaders without a ledger\<close>

lemma getCachedUploader_files: "wfiles (snd (getCachedUploader c w)) = wfiles w"
  by (simp add: getCachedUploader_def split: option.splits)

lemma fastUpload_files: "wfiles (snd (fastUpload p tags c r w)) = wfiles w"
proof -
  obtain x w1 where g: "getCachedUploader c w = (x, w1)" by (cases "getCachedUploader c w")
  then have "wfiles w1 = wfiles w" using getCachedUploader_files [of c w] by simp
  then show ?thesis using g
    by (simp add: fastUpload_def Let_def split: sum.splits option.splits)
qed

text \<open>
  Whenever \<^verbatim>\<open>uploadTokenAssets\<close> fails, at either upload, \<^verbatim>\<open>./temp_metadata.json\<close> is still on
  disk: the only \<^verbatim>\<open>fs.unlinkSync\<close> is on the path of success.
\<close>

lemma uploadTokenAssets_failure_leaves_temp_file:
  assumes "fst (uploadTokenAssets js td c r1 r2 w) = Inl e"
  shows "wfiles (snd (uploadTokenAssets js td c r1 r2 w)) temp_metadata_path \<noteq> None"
proof -
  let ?md = "\<lparr>mdName = td_name td, mdSymbol = td_symbol td,
             mdDescription = td_description td, image = '''',
             external_url = or_empty (td_website td),
             attributes = or_empty (td_attributes td),
             files = [\<lparr>uri = '''', declaredType = ''image/png''\<rparr>],
             mdCategory = ''image'', creators = or_empty (td_creators td),
             mdFileSize = None, mdUploadDetails = None\<rparr>"
  let ?w1 = "writeFileSync temp_metadata_path (metadata_file_stat js ?md) w"
  let ?logoTags = "[(''Asset-Type'', ''token-logo''), (''Token-Symbol'', td_symbol td),
                 (''Token-Name'', td_name td)]"
  obtain x w2 where f1: "fastUpload (td_logoPath td) ?logoTags c r1 ?w1 = (x, w2)"
    by (cases "fastUpload (td_logoPath td) ?logoTags c r1 ?w1")
  have w2: "wfiles w2 = wfiles ?w1" using fastUpload_files [of "td_logoPath td" ?logoTags c r1 ?w1] f1 by simp
  show ?thesis
  proof (cases x)
    case (Inl e1)
    then have "snd (uploadTokenAssets js td c r1 r2 w) = w2"
      using f1 by (simp add: uploadTokenAssets_def Let_def)
    then show ?thesis using w2 by (simp add: writeFileSync_def)
  next
    case (Inr logoResult)
    let ?md' = "?md\<lparr>image := frPublicURL logoResult,
                     files := [\<lparr>uri = frPublicURL logoResult, declaredType = ''image/png''\<rparr>]\<rparr>"
    let ?w3 = "writeFileSync temp_metadata_path (metadata_file_stat js ?md') w2"
    let ?mdTags = "[(''Asset-Type'', ''token-metadata''), (''Token-Symbol'', td_symbol td),
                         (''Token-Name'', td_name td)]"
    obtain y w4 where f2: "fastUpload temp_metadata_path ?mdTags c r2 ?w3 = (y, w4)"
      by (cases "fastUpload temp_metadata_path ?mdTags c r2 ?w3")
    have w4: "wfiles w4 = wfiles ?w3"
      using fastUpload_files [of temp_metadata_path ?mdTags c r2 ?w3] f2 by simp
    show ?thesis
    proof (cases y)
      case (Inl e2)
      then have "snd (uploadTokenAssets js td c r1 r2 w) = w4"
        using f1 f2 Inr by (simp add: uploadTokenAssets_def Let_def)
      then show ?thesis using w4 by (simp add: writeFileSync_def)
    next
      case (Inr metadataResult)
      then have "fst (uploadTokenAssets js td c r1 r2 w) \<noteq> Inl e"
        using f1 f2 \<open>x = Inr logoResult\<close> by (simp add: uploadTokenAssets_def Let_def)
      then show ?thesis using assms by simp
    qed
  qed
qed

text \<open>
  Claim C1 fails on the two pipelines it cites. In \<^verbatim>\<open>uploadTokenAssets\<close> the metadata file is
  written first; when the logo is missing, the call throws "file not found" and
  \<^verbatim>\<open>./temp_metadata.json\<close> stays on disk. In \<^verbatim>\<open>createTokenAssets\<close> the primary upload succeeds,
  the metadata file is written, the metadata upload fails at the remote end, the call
  returns its failure object and \<^verbatim>\<open>./temp_metadata_1704110430000.json\<close> stays on disk. The
  claim requires the temporary file to be deleted on every exit path.
\<close>

theorem failed_token_upload_leaves_temp_file:
  "fst (uploadTokenAssets flat_json_size (sample_token ''./missing.png'') None
          \<lparr>reply = Inr ''L1'', took = 40\<rparr> \<lparr>reply = Inr ''M1'', took = 30\<rparr> empty_world) =
     Inl (FileNotFound ''./missing.png'') \<and>
   map_option fsize
     (wfiles (snd (uploadTokenAssets flat_json_size (sample_token ''./missing.png'') None
          \<lparr>reply = Inr ''L1'', took = 40\<rparr> \<lparr>reply = Inr ''M1'', took = 30\<rparr> empty_world))
        ''./temp_metadata.json'') = Some 400 \<and>
   fst (createTokenAssets_sized default_size_config flat_json_size (sample_token ''./dog.jpg'') None
          \<lparr>outcome = Receipt ''L1'', elapsed = 40\<rparr> \<lparr>outcome = RemoteFails ''502'', elapsed = 30\<rparr>
          noon_30 (world_with ''./dog.jpg'' 5000)) =
     Inl (RemoteUploadError ''502'') \<and>
   map_option fsize
     (wfiles (snd (createTokenAssets_sized default_size_config flat_json_size
          (sample_token ''./dog.jpg'') None
          \<lparr>outcome = Receipt ''L1'', elapsed = 40\<rparr> \<lparr>outcome = RemoteFails ''502'', elapsed = 30\<rparr>
          noon_30 (world_with ''./dog.jpg'' 5000)))
        ''./temp_metadata_1704110430000.json'') = Some 400"
  by code_simp

text \<open>
  Claim C6 fails on \<^verbatim>\<open>uploadTokenAssets\<close>. For the logo \<^verbatim>\<open>./dog.jpg\<close> the run succeeds; the logo
  is uploaded with the detected content type \<^verbatim>\<open>image/jpeg\<close>, and the metadata document that
  is uploaded declares the file type \<^verbatim>\<open>image/png\<close>, the constant written in the source. The
  claim requires the declared type to be the detected one.
\<close>

theorem uploadTokenAssets_declares_fixed_type:
  "fst (uploadTokenAssets flat_json_size (sample_token ''./dog.jpg'') None
          \<lparr>reply = Inr ''L1'', took = 40\<rparr> \<lparr>reply = Inr ''M1'', took = 30\<rparr>
          (world_with ''./dog.jpg'' 5000)) =
     Inr \<lparr>logoURL = ''https://gateway.irys.xyz/L1'', metadataURL = ''https://gateway.irys.xyz/M1'',
          logoTxId = ''L1'', metadataTxId = ''M1'', totalTime = 70\<rparr> \<and>
   remote_log (snd (uploadTokenAssets flat_json_size (sample_token ''./dog.jpg'') None
          \<lparr>reply = Inr ''L1'', took = 40\<rparr> \<lparr>reply = Inr ''M1'', took = 30\<rparr>
          (world_with ''./dog.jpg'' 5000))) =
     [(Binary,
       [(''Content-Type'', ''image/jpeg''), (''File-Name'', ''dog.jpg''),
        (''Asset-Type'', ''token-logo''), (''Token-Symbol'', ''MAT''),
        (''Token-Name'', ''My Awesome Token'')]),
      (MetadataJson
         \<lparr>mdName = ''My Awesome Token'', mdSymbol = ''MAT'',
          mdDescription = ''The most awesome token on Solana'',
          image = ''https://gateway.irys.xyz/L1'',
          external_url = ''https://myawesometoken.com'', attributes = [],
          files = [\<lparr>uri = ''https://gateway.irys.xyz/L1'', declaredType = ''image/png''\<rparr>],
          mdCategory = ''image'', creators = [], mdFileSize = None, mdUploadDetails = None\<rparr>,
       [(''Content-Type'', ''application/json''), (''File-Name'', ''temp_metadata.json''),
        (''Asset-Type'', ''token-metadata''), (''Token-Symbol'', ''MAT''),
        (''Token-Name'', ''My Awesome Token'')])]"
  by code_simp

section \<open>Proofs: the multi-user service\<close>

text \<open>
  \<^verbatim>\<open>uploadFileWithUserTracking\<close> records each upload as soon as the network has answered. When
  the logo is accepted and the metadata upload then fails, \<^verbatim>\<open>createTokenAssetsMultiUser\<close>
  throws, the temporary metadata file is removed by the \<^verbatim>\<open>finally\<close> block, and the logo's row
  stays in \<^verbatim>\<open>upload_history\<close>, counted in the totals of the user. What the caller receives is
  the \<^verbatim>\<open>ReferenceError\<close> of the handler, and the tracked metadata upload stays
  \<^verbatim>\<open>uploading\<close>.
\<close>

lemma createTokenAssetsMultiUser_keeps_primary_upload_row:
  "fst (createTokenAssetsMultiUser 2097152 flat_json_size (sample_token ''temp/logo.png'')
          ''w1'' ''10.0.0.1'' ''uuid-1'' ''uuid-2'' logo_succeeds metadata_fails noon_30
          sample_multi_state) =
     Throws (ReferenceError ''uploadSessionId is not defined'') \<and>
   map (\<lambda>r. (uh_user_id r, uh_transaction_id r, uh_file_name r, uh_file_size r))
     (upload_history (msDb (snd (createTokenAssetsMultiUser 2097152 flat_json_size
          (sample_token ''temp/logo.png'') ''w1'' ''10.0.0.1'' ''uuid-1'' ''uuid-2''
          logo_succeeds metadata_fails noon_30 sample_multi_state)))) =
     [(''w1'', ''L1'', ''logo.png'', 1000)] \<and>
   map (\<lambda>r. (us_user_id r, us_total_uploads r, us_total_size_bytes r))
     (user_sessions (msDb (snd (createTokenAssetsMultiUser 2097152 flat_json_size
          (sample_token ''temp/logo.png'') ''w1'' ''10.0.0.1'' ''uuid-1'' ''uuid-2''
          logo_succeeds metadata_fails noon_30 sample_multi_state)))) =
     [(''w1'', 1, 1000)] \<and>
   map (\<lambda>r. (au_file_name r, au_status r))
     (active_uploads (msDb (snd (createTokenAssetsMultiUser 2097152 flat_json_size
          (sample_token ''temp/logo.png'') ''w1'' ''10.0.0.1'' ''uuid-1'' ''uuid-2''
          logo_succeeds metadata_fails noon_30 sample_multi_state)))) =
     [(''logo.png'', ''completed''), (''metadata_w1_1704110430000.json'', ''uploading'')] \<and>
   msFiles (snd (createTokenAssetsMultiUser 2097152 flat_json_size
          (sample_token ''temp/logo.png'') ''w1'' ''10.0.0.1'' ''uuid-1'' ''uuid-2''
          logo_succeeds metadata_fails noon_30 sample_multi_state))
     ''temp/metadata_w1_1704110430000.json'' = None"
  by code_simp

section \<open>Proofs: the production service\<close>

lemma uploadFile_ledger:
  "ledger (snd (IrysUploadService_uploadFile cfg p wallet tags sid uuid acq now st)) = ledger st"
  by (simp add: IrysUploadService_uploadFile_def Let_def
      split: sum.splits prod.splits acquired.splits option.splits remote_outcome.splits)

lemma uploadFile_returns_receipt:
  "fst (IrysUploadService_uploadFile cfg p wallet tags sid uuid acq now st) = Returns r \<Longrightarrow>
   \<exists>rid. outcome (remote acq) = Receipt rid"
  by (simp add: IrysUploadService_uploadFile_def Let_def
      split: sum.splits prod.splits acquired.splits option.splits remote_outcome.splits)

lemma checkRateLimit_keeps_uploads:
  "uploads_table (snd (ProductionDatabase_checkRateLimit w m wallet ip now db)) = uploads_table db \<and>
   token_assets_table (snd (ProductionDatabase_checkRateLimit w m wallet ip now db)) =
     token_assets_table db"
  by (simp add: ProductionDatabase_checkRateLimit_def Let_def)

lemma createOrUpdateUser_keeps_uploads:
  "uploads_table (snd (ProductionDatabase_createOrUpdateUser wallet now db)) = uploads_table db \<and>
   token_assets_table (snd (ProductionDatabase_createOrUpdateUser wallet now db)) =
     token_assets_table db"
  by (simp add: ProductionDatabase_createOrUpdateUser_def Let_def split: option.splits)

lemma cleanup_metadata_ledger: "ledger (cleanup_metadata p st) = ledger st"
  by (simp add: cleanup_metadata_def)

text \<open>
  \<^verbatim>\<open>uploadFile\<close> never writes to the ledger, and \<^verbatim>\<open>createTokenAssets\<close> writes upload rows only
  in its last stage. So whenever the metadata upload does not come back with a receipt,
  whatever the primary upload did, the \<^verbatim>\<open>uploads\<close> and \<^verbatim>\<open>token_assets\<close> tables are as they
  were before the call.
\<close>

lemma failed_metadata_upload_keeps_ledger:
  assumes "\<And>rid. outcome (remote acq2) \<noteq> Receipt rid"
  shows "uploads_table (ledger (snd (IrysUploadService_createTokenAssets cfg js recordAll td
            wallet ip acq1 acq2 now st))) = uploads_table (ledger st) \<and>
         token_assets_table (ledger (snd (IrysUploadService_createTokenAssets cfg js recordAll td
            wallet ip acq1 acq2 now st))) = token_assets_table (ledger st)"
    (is "?P (snd ?run)")
proof -
  let ?sid = "''token_'' @ take 8 wallet @ ''_'' @ decimal now"
  obtain rr db1 where rc: "ProductionDatabase_checkRateLimit (cfgRateLimitWindow cfg)
      (cfgRateLimitPerMinute cfg) wallet ip now (ledger st) = (rr, db1)"
    by (cases "ProductionDatabase_checkRateLimit (cfgRateLimitWindow cfg)
      (cfgRateLimitPerMinute cfg) wallet ip now (ledger st)")
  have db1: "?P (st\<lparr>ledger := db1\<rparr>)"
    using checkRateLimit_keeps_uploads [of "cfgRateLimitWindow cfg" "cfgRateLimitPerMinute cfg"
        wallet ip now "ledger st"] rc by simp
  let ?st2 = "st\<lparr>ledger := snd (ProductionDatabase_createOrUpdateUser wallet now db1)\<rparr>"
  have st2: "?P ?st2"
    using createOrUpdateUser_keeps_uploads [of wallet now db1] db1 by simp
  show ?thesis
  proof (cases rr)
    case (Rejected err)
    then have "snd ?run = st\<lparr>ledger := db1\<rparr>"
      using rc by (simp add: IrysUploadService_createTokenAssets_def Let_def)
    then show ?thesis using db1 by simp
  next
    case (CallbackThrew err)
    then have "snd ?run = st\<lparr>ledger := db1\<rparr>"
      using rc by (simp add: IrysUploadService_createTokenAssets_def Let_def)
    then show ?thesis using db1 by simp
  next
    case (Resolved rateCheck)
    show ?thesis
    proof (cases "allowed rateCheck")
      case False
      then have "snd ?run = st\<lparr>ledger := db1\<rparr>"
        using rc Resolved by (simp add: IrysUploadService_createTokenAssets_def Let_def)
      then show ?thesis using db1 by simp
    next
      case True
      show ?thesis
      proof (cases "validateFile (cfgMaxUploadSize cfg) (sfiles ?st2) (td_logoPath td)")
        case (Inl e)
        then have "snd ?run = ?st2"
          using rc Resolved True by (simp add: IrysUploadService_createTokenAssets_def Let_def)
        then show ?thesis using st2 by simp
      next
        case (Inr logoInfo)
        let ?logoTags = "[(''Asset-Type'', ''token-logo''), (''Token-Symbol'', td_symbol td),
                          (''Token-Name'', td_name td)]"
        obtain r3 st3 where u1: "IrysUploadService_uploadFile cfg (td_logoPath td) wallet ?logoTags
            (Some ?sid) [] acq1 now ?st2 = (r3, st3)"
          by (cases "IrysUploadService_uploadFile cfg (td_logoPath td) wallet ?logoTags
            (Some ?sid) [] acq1 now ?st2")
        have st3: "?P st3"
          using uploadFile_ledger [of cfg "td_logoPath td" wallet ?logoTags "Some ?sid" "[]"
              acq1 now ?st2] u1 st2 by simp
        show ?thesis
        proof (cases r3)
          case (Throws e)
          then have "snd ?run = st3"
            using rc Resolved True Inr u1
            by (simp add: IrysUploadService_createTokenAssets_def Let_def)
          then show ?thesis using st3 by simp
        next
          case StillWaiting
          then have "snd ?run = st3"
            using rc Resolved True Inr u1
            by (simp add: IrysUploadService_createTokenAssets_def Let_def)
          then show ?thesis using st3 by simp
        next
          case (Returns logoResult)
          let ?md = "\<lparr>mdName = td_name td, mdSymbol = td_symbol td,
                      mdDescription = td_description td, image = publicURL logoResult,
                      external_url = or_empty (td_website td),
                      attributes = or_empty (td_attributes td),
                      files = [\<lparr>uri = publicURL logoResult,
                                 declaredType = stMime (vType logoInfo)\<rparr>],
                      mdCategory = stCategory (vType logoInfo),
                      creators = or_empty (td_creators td), mdFileSize = None,
                      mdUploadDetails = Some
                        \<lparr>ud_wallet_address = wallet, ud_session_id = ?sid,
                         ud_logo_transaction_id = transactionId logoResult,
                         ud_created_at = now, ud_file_size = vSize logoInfo,
                         ud_content_type = stMime (vType logoInfo)\<rparr>\<rparr>"
          let ?path = "cfgTempDir cfg @ ''/metadata_'' @ ?sid @ ''.json''"
          let ?st4 = "st3\<lparr>sfiles := (sfiles st3)(?path \<mapsto> metadata_file_stat js ?md)\<rparr>"
          let ?mdTags = "[(''Asset-Type'', ''token-metadata''), (''Token-Symbol'', td_symbol td),
                          (''Token-Name'', td_name td), (''Logo-Type'', stMime (vType logoInfo))]"
          obtain r5 st5 where u2: "IrysUploadService_uploadFile cfg ?path wallet ?mdTags
              (Some ?sid) [] acq2 now ?st4 = (r5, st5)"
            by (cases "IrysUploadService_uploadFile cfg ?path wallet ?mdTags
              (Some ?sid) [] acq2 now ?st4")
          have st5: "?P st5"
            using uploadFile_ledger [of cfg ?path wallet ?mdTags "Some ?sid" "[]" acq2 now ?st4]
              u2 st3 by simp
          have nr: "r5 \<noteq> Returns r" for r
            using uploadFile_returns_receipt [of cfg ?path wallet ?mdTags "Some ?sid" "[]"
                acq2 now ?st4 r] u2 assms by auto
          show ?thesis
          proof (cases r5)
            case (Throws e)
            then have "snd ?run = cleanup_metadata ?path st5"
              using rc Resolved True Inr u1 u2 \<open>r3 = Returns logoResult\<close>
              by (simp add: IrysUploadService_createTokenAssets_def Let_def)
            then show ?thesis using st5 by (simp add: cleanup_metadata_ledger)
          next
            case StillWaiting
            then have "snd ?run = st5"
              using rc Resolved True Inr u1 u2 \<open>r3 = Returns logoResult\<close>
              by (simp add: IrysUploadService_createTokenAssets_def Let_def)
            then show ?thesis using st5 by simp
          next
            case (Returns r)
            then show ?thesis using nr by simp
          qed
        qed
      qed
    qed
  qed
qed

text \<open>
  Claim C8 fails on \<^verbatim>\<open>IrysUploadService.createTokenAssets\<close>. The logo
  \<^verbatim>\<open>/srv/temp/logo.png\<close> is uploaded and the network answers with receipt L1; the metadata
  document is written and its upload fails at the remote end. Whatever the recording stage
  would have done, the call throws the remote error, the metadata file is deleted, no
  \<^verbatim>\<open>token_assets\<close> row exists, and the \<^verbatim>\<open>uploads\<close> table is empty: the primary asset, accepted
  by the network, has no ledger row. The claim requires the primary asset's upload row to
  persist.
\<close>

theorem createTokenAssets_drops_primary_upload_row:
  "fst (IrysUploadService_createTokenAssets sample_service_config flat_json_size recordAll
          (sample_token ''/srv/temp/logo.png'') ''WalletAddress1111'' ''10.0.0.1''
          logo_succeeds metadata_fails noon_30 sample_service_state) =
     Throws (RemoteUploadError ''502 Bad Gateway'') \<and>
   map (\<lambda>(content, tags). map_of tags ''Asset-Type'')
     (network_log (snd (IrysUploadService_createTokenAssets sample_service_config flat_json_size
          recordAll (sample_token ''/srv/temp/logo.png'') ''WalletAddress1111'' ''10.0.0.1''
          logo_succeeds metadata_fails noon_30 sample_service_state))) = [Some ''token-logo''] \<and>
   uploads_table (ledger (snd (IrysUploadService_createTokenAssets sample_service_config
          flat_json_size recordAll (sample_token ''/srv/temp/logo.png'') ''WalletAddress1111''
          ''10.0.0.1'' logo_succeeds metadata_fails noon_30 sample_service_state))) = [] \<and>
   token_assets_table (ledger (snd (IrysUploadService_createTokenAssets sample_service_config
          flat_json_size recordAll (sample_token ''/srv/temp/logo.png'') ''WalletAddress1111''
          ''10.0.0.1'' logo_succeeds metadata_fails noon_30 sample_service_state))) = [] \<and>
   sfiles (snd (IrysUploadService_createTokenAssets sample_service_config flat_json_size recordAll
          (sample_token ''/srv/temp/logo.png'') ''WalletAddress1111'' ''10.0.0.1''
          logo_succeeds metadata_fails noon_30 sample_service_state))
     ''/srv/temp/metadata_token_WalletAd_1704110430000.json'' = None"
  by code_simp

end
